theory Spec2Isabelle
  imports Complex_Main
begin

section \<open>Go standard-library functions on byte strings\<close>

text \<open>
  A Go string is a sequence of bytes, modelled as \<^typ>\<open>string\<close>.  The functions of the
  packages \<^verbatim>\<open>strings\<close>, \<^verbatim>\<open>strconv\<close> and \<^verbatim>\<open>fmt\<close> that the program calls
  are written out here on bytes.

  \<^verbatim>\<open>strings.TrimSpace\<close> removes leading and trailing runes with the Unicode White_Space
  property.  \<open>spaceRunes\<close> lists the UTF-8 encodings of exactly these runes
  (U+0009..U+000D, U+0020, U+0085, U+00A0, U+1680, U+2000..U+200A, U+2028, U+2029,
  U+202F, U+205F, U+3000).
\<close>

definition spaceRunes :: "string list" where
  "spaceRunes =
    [[CHR 0x09], [CHR 0x0A], [CHR 0x0B], [CHR 0x0C], [CHR 0x0D], [CHR 0x20],
     [CHR 0xC2, CHR 0x85], [CHR 0xC2, CHR 0xA0],
     [CHR 0xE1, CHR 0x9A, CHR 0x80],
     [CHR 0xE2, CHR 0x80, CHR 0x80], [CHR 0xE2, CHR 0x80, CHR 0x81],
     [CHR 0xE2, CHR 0x80, CHR 0x82], [CHR 0xE2, CHR 0x80, CHR 0x83],
     [CHR 0xE2, CHR 0x80, CHR 0x84], [CHR 0xE2, CHR 0x80, CHR 0x85],
     [CHR 0xE2, CHR 0x80, CHR 0x86], [CHR 0xE2, CHR 0x80, CHR 0x87],
     [CHR 0xE2, CHR 0x80, CHR 0x88], [CHR 0xE2, CHR 0x80, CHR 0x89],
     [CHR 0xE2, CHR 0x80, CHR 0x8A],
     [CHR 0xE2, CHR 0x80, CHR 0xA8], [CHR 0xE2, CHR 0x80, CHR 0xA9],
     [CHR 0xE2, CHR 0x80, CHR 0xAF],
     [CHR 0xE2, CHR 0x81, CHR 0x9F],
     [CHR 0xE3, CHR 0x80, CHR 0x80]]"

text \<open>The number of bytes of the white-space rune the string starts with, 0 if there is none.\<close>

definition leadingSpace :: "string \<Rightarrow> nat" where
  "leadingSpace s =
     (if take 1 s \<in> set spaceRunes then 1
      else if take 2 s \<in> set spaceRunes then 2
      else if take 3 s \<in> set spaceRunes then 3
      else 0)"

text \<open>The same for the rune the string ends with (Go decodes the last rune backwards).\<close>

definition trailingSpace :: "string \<Rightarrow> nat" where
  "trailingSpace s =
     (if rev (take 1 (rev s)) \<in> set spaceRunes then 1
      else if rev (take 2 (rev s)) \<in> set spaceRunes then 2
      else if rev (take 3 (rev s)) \<in> set spaceRunes then 3
      else 0)"

function TrimLeftSpace :: "string \<Rightarrow> string" where
  "TrimLeftSpace s =
     (if leadingSpace s = 0 then s else TrimLeftSpace (drop (leadingSpace s) s))"
  by pat_completeness auto
termination
proof (relation "measure length")
  fix s :: string
  assume pos: "leadingSpace s \<noteq> 0"
  have "leadingSpace [] = 0"
    by (simp add: leadingSpace_def spaceRunes_def)
  with pos have "s \<noteq> []"
    by auto
  with pos show "(drop (leadingSpace s) s, s) \<in> measure length"
    by simp
qed simp

function TrimRightSpace :: "string \<Rightarrow> string" where
  "TrimRightSpace s =
     (if trailingSpace s = 0 then s
      else TrimRightSpace (take (length s - trailingSpace s) s))"
  by pat_completeness auto
termination
proof (relation "measure length")
  fix s :: string
  assume pos: "trailingSpace s \<noteq> 0"
  have "trailingSpace [] = 0"
    by (simp add: trailingSpace_def spaceRunes_def)
  with pos have "s \<noteq> []"
    by auto
  with pos show "(take (length s - trailingSpace s) s, s) \<in> measure length"
    by simp
qed simp

declare TrimLeftSpace.simps [simp del] TrimRightSpace.simps [simp del]

definition TrimSpace :: "string \<Rightarrow> string" where
  "TrimSpace s = TrimRightSpace (TrimLeftSpace s)"

text \<open>
  \<^verbatim>\<open>strings.ToLower\<close>, \<^verbatim>\<open>strings.ToUpper\<close> and \<^verbatim>\<open>strings.EqualFold\<close> on the ASCII
  letters; every other byte is left as it is.  Go maps the non-ASCII letters too, four of
  them to ASCII letters: \<^verbatim>\<open>ToUpper\<close> maps U+0131 to \<open>I\<close> and U+017F to \<open>S\<close>,
  \<^verbatim>\<open>ToLower\<close> maps U+0130 to \<open>i\<close> and U+212A to \<open>k\<close>.  The definitions here
  agree with Go on every string without a non-ASCII letter.
\<close>

definition lowerByte :: "char \<Rightarrow> char" where
  "lowerByte c =
     (let n = (of_char c :: nat) in if 65 \<le> n \<and> n \<le> 90 then char_of (n + 32) else c)"

definition upperByte :: "char \<Rightarrow> char" where
  "upperByte c =
     (let n = (of_char c :: nat) in if 97 \<le> n \<and> n \<le> 122 then char_of (n - 32) else c)"

definition ToLower :: "string \<Rightarrow> string" where
  "ToLower s = map lowerByte s"

definition ToUpper :: "string \<Rightarrow> string" where
  "ToUpper s = map upperByte s"

definition EqualFold :: "string \<Rightarrow> string \<Rightarrow> bool" where
  "EqualFold s t = (map lowerByte s = map lowerByte t)"

definition HasPrefix :: "string \<Rightarrow> string \<Rightarrow> bool" where
  "HasPrefix s p = (take (length p) s = p)"

fun Contains :: "string \<Rightarrow> string \<Rightarrow> bool" where
  "Contains [] sub = (sub = [])"
| "Contains (c # cs) sub = (take (length sub) (c # cs) = sub \<or> Contains cs sub)"

fun Join :: "string list \<Rightarrow> string \<Rightarrow> string" where
  "Join [] sep = []"
| "Join [x] sep = x"
| "Join (x # y # ys) sep = x @ sep @ Join (y # ys) sep"

text \<open>Decimal digits, for \<^verbatim>\<open>strconv.ParseInt\<close> and the verb \<^verbatim>\<open>%d\<close>.\<close>

definition isDigit :: "char \<Rightarrow> bool" where
  "isDigit c = (let n = (of_char c :: nat) in 48 \<le> n \<and> n \<le> 57)"

fun digitsValue :: "int \<Rightarrow> string \<Rightarrow> int" where
  "digitsValue acc [] = acc"
| "digitsValue acc (c # cs) = digitsValue (acc * 10 + (int (of_char c) - 48)) cs"

definition minInt64 :: int where
  "minInt64 = - 9223372036854775808"

definition maxInt64 :: int where
  "maxInt64 = 9223372036854775807"

text \<open>
  \<^verbatim>\<open>strconv.ParseInt(s, 10, 64)\<close>: an optional sign, then one or more decimal digits;
  a value outside the 64-bit range is an error (\<open>None\<close>).
\<close>

definition ParseInt :: "string \<Rightarrow> int option" where
  "ParseInt s =
     (let neg = (take 1 s = ''-'');
          ds = (if take 1 s = ''+'' \<or> take 1 s = ''-'' then drop 1 s else s)
      in if ds = [] \<or> \<not> list_all isDigit ds then None
         else let v = (if neg then - digitsValue 0 ds else digitsValue 0 ds)
              in if minInt64 \<le> v \<and> v \<le> maxInt64 then Some v else None)"

definition digitChar :: "nat \<Rightarrow> char" where
  "digitChar d = ''0123456789'' ! d"

fun natDigits :: "nat \<Rightarrow> string" where
  "natDigits n =
     (if n < 10 then [digitChar n] else natDigits (n div 10) @ [digitChar (n mod 10)])"

declare natDigits.simps [simp del]

text \<open>The verb \<^verbatim>\<open>%d\<close> of \<^verbatim>\<open>fmt.Sprintf\<close>.\<close>

definition formatInt :: "int \<Rightarrow> string" where
  "formatInt i = (if i < 0 then ''-'' @ natDigits (nat (- i)) else natDigits (nat i))"

text \<open>Signed 64-bit wrap-around of Go's \<^verbatim>\<open>int\<close> and \<^verbatim>\<open>int64\<close> arithmetic.\<close>

definition wrap64 :: "int \<Rightarrow> int" where
  "wrap64 x = (x + 9223372036854775808) mod 18446744073709551616 - 9223372036854775808"

section \<open>Time\<close>

text \<open>
  A \<^verbatim>\<open>time.Time\<close> is modelled as the instant it denotes, in nanoseconds since the Unix
  epoch; a \<^verbatim>\<open>time.Duration\<close> is a signed 64-bit count of nanoseconds.  The zero
  \<^verbatim>\<open>time.Time{}\<close> is January 1 of year 1, 00:00 UTC.
\<close>

type_synonym Time = int

definition zeroTime :: Time where
  "zeroTime = - 62135596800000000000"

definition UnixMilliTime :: "int \<Rightarrow> Time" where
  "UnixMilliTime ms = ms * 1000000"

definition UnixMilli :: "Time \<Rightarrow> int" where
  "UnixMilli t = t div 1000000"

definition After :: "Time \<Rightarrow> Time \<Rightarrow> bool" where
  "After t u = (u < t)"

definition Add :: "Time \<Rightarrow> int \<Rightarrow> Time" where
  "Add t d = t + d"

definition Hour :: int where
  "Hour = 3600000000000"

section \<open>Data model\<close>

record NullString =
  NS_String :: string
  NS_Valid :: bool

record NullInt64 =
  NI_Int64 :: int
  NI_Valid :: bool

record Participant =
  P_ID :: string
  P_Name :: string
  IsSelf :: bool

record Thread =
  ID :: string
  AccountID :: string
  Title :: string
  Name :: string
  Type :: string
  DisplayName :: string
  LastActivity :: Time
  LastMessage :: Time
  LastOpen :: Time
  IsUnread :: bool
  IsMarkedUnread :: bool
  IsLowPriority :: bool
  IsArchived :: bool
  UnreadCount :: int
  UnreadMentions :: int
  TotalMessages :: int
  Tags :: "string list"
  Participants :: "Participant list"

definition emptyThread :: Thread where
  "emptyThread = \<lparr>ID = [], AccountID = [], Title = [], Name = [], Type = [],
     DisplayName = [], LastActivity = zeroTime, LastMessage = zeroTime, LastOpen = zeroTime,
     IsUnread = False, IsMarkedUnread = False, IsLowPriority = False, IsArchived = False,
     UnreadCount = 0, UnreadMentions = 0, TotalMessages = 0, Tags = [], Participants = []\<rparr>"

definition LabelAll :: string where "LabelAll = ''all''"
definition LabelInbox :: string where "LabelInbox = ''inbox''"
definition LabelArchive :: string where "LabelArchive = ''archive''"
definition LabelFavourite :: string where "LabelFavourite = ''favourite''"
definition LabelUnread :: string where "LabelUnread = ''unread''"

section \<open>Classification\<close>

text \<open>
  \<^verbatim>\<open>parseArchivedValue\<close>.  \<^verbatim>\<open>strconv.ParseFloat\<close> followed by the conversion
  \<^verbatim>\<open>int64(parsed)\<close> is the parameter \<open>parseFloat\<close>: the converted value when the
  string parses as a float, \<open>None\<close> when it does not.
\<close>

definition parseArchivedValue :: "(string \<Rightarrow> int option) \<Rightarrow> NullString \<Rightarrow> int option" where
  "parseArchivedValue parseFloat v =
     (if \<not> NS_Valid v then None
      else let raw = TrimSpace (NS_String v) in
        if raw = [] then None
        else let lower = ToLower raw;
                 raw = (if HasPrefix lower ''ts'' then drop 2 raw else raw)
             in if raw = [] then None
                else (case ParseInt raw of
                        Some parsed \<Rightarrow> Some parsed
                      | None \<Rightarrow>
                          (case parseFloat raw of
                             Some parsed \<Rightarrow> Some parsed
                           | None \<Rightarrow> None)))"

definition computeArchived ::
  "(string \<Rightarrow> int option) \<Rightarrow> NullString \<Rightarrow> NullString \<Rightarrow> NullInt64 \<Rightarrow> NullInt64 \<Rightarrow> bool" where
  "computeArchived parseFloat archivedUpto archivedUpToOrder latestHsOrder lastMessage =
     (let order = parseArchivedValue parseFloat archivedUpToOrder in
      if order \<noteq> None \<and> NI_Valid latestHsOrder then NI_Int64 latestHsOrder \<le> the order
      else (case parseArchivedValue parseFloat archivedUpto of
              Some ts \<Rightarrow>
                if ts > 1000000000000 then
                  (if NI_Valid lastMessage then NI_Int64 lastMessage \<le> ts else True)
                else
                  (if NI_Valid latestHsOrder then NI_Int64 latestHsOrder \<le> ts else True)
            | None \<Rightarrow> NS_Valid archivedUpto \<and> TrimSpace (NS_String archivedUpto) \<noteq> []))"

fun containsTag :: "string list \<Rightarrow> string \<Rightarrow> bool" where
  "containsTag [] target = False"
| "containsTag (tag # tags) target =
     (if EqualFold tag target then True else containsTag tags target)"

definition shouldIncludeThread :: "string \<Rightarrow> Thread \<Rightarrow> bool \<Rightarrow> bool \<Rightarrow> bool" where
  "shouldIncludeThread label thread archived includeLowPriority =
     (if \<not> includeLowPriority \<and> IsLowPriority thread then False
      else if label = LabelInbox then
        (if containsTag (Tags thread) ''favourite'' then True
         else if archived then False
         else True)
      else if label = LabelArchive then
        (if \<not> archived then False
         else if containsTag (Tags thread) ''favourite'' then False
         else True)
      else if label = LabelFavourite then containsTag (Tags thread) ''favourite''
      else if label = LabelUnread then IsUnread thread \<or> IsMarkedUnread thread
      else if label = LabelAll then True
      else True)"

text \<open>
  The reading of the markers in the words of the specification, for comparison with
  \<^verbatim>\<open>parseArchivedValue\<close>: ``strip an optional non-numeric prefix, then parse as integer
  or float''.  The prefix stripped is the longest one without a digit, a sign or a point.
\<close>

definition specParseMarker :: "(string \<Rightarrow> int option) \<Rightarrow> NullString \<Rightarrow> int option" where
  "specParseMarker parseFloat v =
     (if \<not> NS_Valid v then None
      else let raw = dropWhile (\<lambda>c. \<not> isDigit c \<and> c \<notin> set ''+-.'') (TrimSpace (NS_String v))
           in if raw = [] then None
              else (case ParseInt raw of
                      Some parsed \<Rightarrow> Some parsed
                    | None \<Rightarrow> parseFloat raw))"

text \<open>The three rules of the specification over that reading, the first applicable one winning.\<close>

definition specArchived ::
  "(string \<Rightarrow> int option) \<Rightarrow> NullString \<Rightarrow> NullString \<Rightarrow> NullInt64 \<Rightarrow> NullInt64 \<Rightarrow> bool" where
  "specArchived parseFloat archivedUpto archivedUpToOrder latestHsOrder lastMessage =
     (case (specParseMarker parseFloat archivedUpToOrder, NI_Valid latestHsOrder) of
        (Some marker, True) \<Rightarrow> NI_Int64 latestHsOrder \<le> marker
      | _ \<Rightarrow>
          (case specParseMarker parseFloat archivedUpto of
             Some marker \<Rightarrow>
               if marker > 1000000000000
               then \<not> NI_Valid lastMessage \<or> NI_Int64 lastMessage \<le> marker
               else \<not> NI_Valid latestHsOrder \<or> NI_Int64 latestHsOrder \<le> marker
           | None \<Rightarrow> NS_Valid archivedUpto \<and> TrimSpace (NS_String archivedUpto) \<noteq> []))"

section \<open>Text renderer\<close>

text \<open>
  A decoded JSON document, as \<^verbatim>\<open>json.Unmarshal\<close> into an \<^verbatim>\<open>any\<close> yields it:
  an object is a \<^verbatim>\<open>map[string]any\<close>, here an association list in which each key
  occurs once.  A number is kept as its literal.  The decoder itself is a parameter
  \<open>unmarshal\<close> of the functions below: \<open>None\<close> when the input is not valid JSON.
\<close>

datatype json =
    JNull
  | JBool bool
  | JNumber string
  | JString string
  | JArray "json list"
  | JObject "(string \<times> json) list"

definition FormatPlain :: string where "FormatPlain = ''plain''"
definition FormatRich :: string where "FormatRich = ''rich''"

fun firstString :: "(string \<times> json) list \<Rightarrow> string list \<Rightarrow> string" where
  "firstString payload [] = []"
| "firstString payload (key # keys) =
     (case map_of payload key of
        Some (JString s) \<Rightarrow> TrimSpace s
      | _ \<Rightarrow> firstString payload keys)"

definition formatWithOptionalText :: "string \<Rightarrow> string \<Rightarrow> string" where
  "formatWithOptionalText prefix text' =
     (let text' = TrimSpace text' in
      if text' = [] then prefix else prefix @ '' '' @ text')"

definition fallbackMessageText :: "string \<Rightarrow> string \<Rightarrow> bool \<Rightarrow> string" where
  "fallbackMessageText v msgType rich =
     (if msgType = ''TEXT'' then v
      else if \<not> rich then v
      else if TrimSpace v \<noteq> [] \<and> msgType \<noteq> [] then
        formatWithOptionalText (''['' @ msgType @ '']'') v
      else let msgType = (if msgType = [] then ''MESSAGE'' else msgType)
           in ''['' @ msgType @ '']'')"

definition renderPayload :: "(string \<times> json) list \<Rightarrow> string \<Rightarrow> bool \<Rightarrow> string" where
  "renderPayload payload msgType rich =
     (let text' = firstString payload [''body'', ''text''] in
      if \<not> rich \<or> msgType = ''TEXT'' then text'
      else if msgType = ''IMAGE'' then formatWithOptionalText ''[Image]'' text'
      else if msgType = ''VIDEO'' then formatWithOptionalText ''[Video]'' text'
      else if msgType = ''AUDIO'' then
        (let url = firstString payload [''url''] in
         if url \<noteq> [] then ''[Audio: '' @ url @ '']'' else ''[Audio message]'')
      else if msgType = ''FILE'' then
        (let filename = firstString payload [''filename'', ''name''];
             url = firstString payload [''url'']
         in if filename \<noteq> [] \<and> url \<noteq> [] then ''[File: '' @ filename @ '' - '' @ url @ '']''
            else if filename \<noteq> [] then ''[File: '' @ filename @ '']''
            else if url \<noteq> [] then ''[File: '' @ url @ '']''
            else ''[File]'')
      else if msgType = ''LOCATION'' then
        (let geo = firstString payload [''geo_uri'', ''geoUri''] in
         if geo \<noteq> [] then ''[Location: '' @ geo @ '']'' else ''[Location]'')
      else if msgType = ''CONTACT'' then
        (let name = firstString payload [''display_name'', ''displayName'', ''name''] in
         if name \<noteq> [] then ''[Contact: '' @ name @ '']'' else ''[Contact]'')
      else if msgType = ''STICKER'' then
        (let url = firstString payload [''url''] in
         if url \<noteq> [] then ''[Sticker: '' @ url @ '']'' else ''[Sticker]'')
      else fallbackMessageText text' msgType rich)"

definition extractMessageText ::
  "(string \<Rightarrow> json option) \<Rightarrow> string \<Rightarrow> string \<Rightarrow> bool \<Rightarrow> string" where
  "extractMessageText unmarshal rawMessage msgType rich =
     (if TrimSpace rawMessage = [] then []
      else let upperType = ToUpper (TrimSpace msgType);
               upperType = (if upperType = [] then ''TEXT'' else upperType)
           in (case unmarshal rawMessage of
                 None \<Rightarrow> fallbackMessageText rawMessage upperType rich
               | Some (JObject payload) \<Rightarrow> renderPayload payload upperType rich
               | Some (JString s) \<Rightarrow>
                   if upperType = ''TEXT'' then s else fallbackMessageText s upperType rich
               | Some other \<Rightarrow> fallbackMessageText rawMessage upperType rich))"

definition ResolveMessageText ::
  "(string \<Rightarrow> json option) \<Rightarrow> string \<Rightarrow> string \<Rightarrow> string \<Rightarrow> string \<Rightarrow> string" where
  "ResolveMessageText unmarshal rawMessage msgType textContent format =
     (if format = FormatPlain then
        (if TrimSpace textContent \<noteq> [] then textContent
         else extractMessageText unmarshal rawMessage msgType False)
      else let rich = extractMessageText unmarshal rawMessage msgType True
           in if TrimSpace rich \<noteq> [] then rich else textContent)"

text \<open>
  The decoded values of the payloads that the examples of this theory use; on every other
  input this decoder reports an error.
\<close>

definition exampleUnmarshal :: \<open>string \<Rightarrow> json option\<close> where
  \<open>exampleUnmarshal raw =
     (if raw = ''{"text":" hello"}'' then Some (JObject [(''text'', JString '' hello'')])
      else if raw = ''{"url":"https://example.com/file.pdf","filename":"report.pdf"}'' then
        Some (JObject [(''url'', JString ''https://example.com/file.pdf''),
                       (''filename'', JString ''report.pdf'')])
      else if raw = ''{"text":"hello"}'' then Some (JObject [(''text'', JString ''hello'')])
      else if raw = ''{"text":"christmas party"}'' then
        Some (JObject [(''text'', JString ''christmas party'')])
      else if raw = ''{"text":"see you"}'' then Some (JObject [(''text'', JString ''see you'')])
      else if raw = ''{"text":"invoice due"}'' then
        Some (JObject [(''text'', JString ''invoice due'')])
      else None)\<close>

section \<open>Name resolver\<close>

text \<open>
  An error is the message \<^verbatim>\<open>err.Error()\<close> reports.  A function that returns
  \<^verbatim>\<open>(value, error)\<close> is modelled with a sum, the error on the left.
\<close>

type_synonym error = string

text \<open>
  A bridge database, as far as \<^verbatim>\<open>queryBridgeName\<close> reads it.  Each of its two
  statements selects at most one row with one column: the result is an error, no row
  (\<open>None\<close>) or the column's value.
  \<^item> \<open>portalOtherUser\<close>: \<^verbatim>\<open>SELECT other_user_id FROM portal WHERE mxid = ? AND other_user_id IS NOT NULL LIMIT 1\<close>
  \<^item> \<open>ghostName\<close>: \<^verbatim>\<open>SELECT name FROM ghost WHERE id = ? AND name != '' LIMIT 1\<close>

  The files are a function from the path to what \<^verbatim>\<open>sql.Open\<close> yields there.
\<close>

record bridgeDB =
  portalOtherUser :: "string \<Rightarrow> error + string option"
  ghostName :: "string \<Rightarrow> error + string option"

type_synonym bridgeFiles = "string \<Rightarrow> error + bridgeDB"

text \<open>
  \<open>platformDBs\<close> is a Go map.  It is kept as an association list with distinct keys;
  the order of the list is the order in which \<^verbatim>\<open>range\<close> visits the map, which Go
  leaves unspecified.
\<close>

record BridgeLookup =
  platformDBs :: "(string \<times> string) list"
  cache :: "string \<rightharpoonup> string"

definition TrimPrefix :: "string \<Rightarrow> string \<Rightarrow> string" where
  "TrimPrefix s p = (if HasPrefix s p then drop (length p) s else s)"

definition normalizePlatform :: "string \<Rightarrow> string" where
  "normalizePlatform platform =
     (let platform = ToLower (TrimSpace platform) in TrimPrefix platform ''local-'')"

definition queryBridgeName :: "bridgeFiles \<Rightarrow> string \<Rightarrow> string \<Rightarrow> error + (string \<times> bool)" where
  "queryBridgeName files dbPath roomID =
     (case files dbPath of
        Inl err \<Rightarrow> Inl err
      | Inr conn \<Rightarrow>
          (case portalOtherUser conn roomID of
             Inl err \<Rightarrow> Inl err
           | Inr None \<Rightarrow> Inr ([], False)
           | Inr (Some otherUser) \<Rightarrow>
               (case ghostName conn otherUser of
                  Inl err \<Rightarrow> Inl err
                | Inr None \<Rightarrow> Inr ([], False)
                | Inr (Some name) \<Rightarrow>
                    (let name = TrimSpace name in
                     if name = [] then Inr ([], False) else Inr (name, True)))))"

text \<open>
  The loop \<^verbatim>\<open>for _, path := range b.platformDBs\<close> of \<^verbatim>\<open>LookupDMName\<close>: it
  stops at the first error and at the first store that yields a name.  Every function of
  the resolver also returns the list of the store files it opened, in order.
\<close>

fun rangePlatformDBs ::
  "bridgeFiles \<Rightarrow> (string \<times> string) list \<Rightarrow> string \<Rightarrow> (error + string option) \<times> string list" where
  "rangePlatformDBs files [] roomID = (Inr None, [])"
| "rangePlatformDBs files ((platform, path) # rest) roomID =
     (case queryBridgeName files path roomID of
        Inl err \<Rightarrow> (Inl err, [path])
      | Inr (name, ok) \<Rightarrow>
          if ok then (Inr (Some name), [path])
          else (case rangePlatformDBs files rest roomID of (r, opened) \<Rightarrow> (r, path # opened)))"

text \<open>
  \<^verbatim>\<open>LookupDMName\<close>.  The receiver may be nil (\<open>None\<close>).  The result is the returned
  \<^verbatim>\<open>(name, ok, err)\<close>, the receiver after the call, and the store files opened.
\<close>

definition LookupDMName ::
  "bridgeFiles \<Rightarrow> BridgeLookup option \<Rightarrow> string \<Rightarrow> string \<Rightarrow>
     (error + (string \<times> bool)) \<times> BridgeLookup option \<times> string list" where
  "LookupDMName files b roomID accountID =
     (case b of
        None \<Rightarrow> (Inr ([], False), b, [])
      | Some bl \<Rightarrow>
          if platformDBs bl = [] then (Inr ([], False), b, [])
          else (case cache bl roomID of
                  Some cached \<Rightarrow>
                    if cached = [] then (Inr ([], False), b, [])
                    else (Inr (cached, True), b, [])
                | None \<Rightarrow>
                    (let candidate =
                           (if accountID \<noteq> [] then
                              (case map_of (platformDBs bl) (normalizePlatform accountID) of
                                 Some path \<Rightarrow> path
                               | None \<Rightarrow> [])
                            else [])
                     in if candidate \<noteq> [] then
                          (case queryBridgeName files candidate roomID of
                             Inl err \<Rightarrow> (Inl err, b, [candidate])
                           | Inr (name, ok) \<Rightarrow>
                               (Inr (name, ok),
                                Some (bl\<lparr>cache := (cache bl)(roomID \<mapsto> name)\<rparr>),
                                [candidate]))
                        else
                          (case rangePlatformDBs files (platformDBs bl) roomID of
                             (Inl err, opened) \<Rightarrow> (Inl err, b, opened)
                           | (Inr (Some name), opened) \<Rightarrow>
                               (Inr (name, True),
                                Some (bl\<lparr>cache := (cache bl)(roomID \<mapsto> name)\<rparr>),
                                opened)
                           | (Inr None, opened) \<Rightarrow>
                               (Inr ([], False),
                                Some (bl\<lparr>cache := (cache bl)(roomID \<mapsto> [])\<rparr>),
                                opened)))))"

section \<open>Display names\<close>

definition isDirect :: "Thread \<Rightarrow> bool" where
  "isDirect thread = (Type thread = ''single'' \<or> Type thread = ''dm'')"

definition nonSelfNames :: "Participant list \<Rightarrow> string list" where
  "nonSelfNames participants = map P_Name (filter (\<lambda>p. \<not> IsSelf p) participants)"

text \<open>
  \<^verbatim>\<open>displayName\<close>, a method of the store; of the store it uses the bridge only.  It
  returns the name, the bridge after the call and the store files opened.
\<close>

definition displayName ::
  "bridgeFiles \<Rightarrow> BridgeLookup option \<Rightarrow> Thread \<Rightarrow> Participant list \<Rightarrow>
     string \<times> BridgeLookup option \<times> string list" where
  "displayName files bridge thread participants =
     (if Title thread \<noteq> [] then (Title thread, bridge, [])
      else if Name thread \<noteq> [] then (Name thread, bridge, [])
      else
        (let (looked, bridge', opened) =
               (if bridge \<noteq> None \<and> isDirect thread then
                  LookupDMName files bridge (ID thread) (AccountID thread)
                else (Inr ([], False), bridge, []))
         in (case looked of
               Inr (name, True) \<Rightarrow> (name, bridge', opened)
             | other \<Rightarrow>
                 (let nonSelf = nonSelfNames participants in
                  (if nonSelf = [] then ''(unknown)''
                   else if isDirect thread then hd nonSelf
                   else if length nonSelf \<le> 3 then Join nonSelf '', ''
                   else Join (take 3 nonSelf) '', '' @ '' +'' @ formatInt (int (length nonSelf) - 3),
                   bridge', opened)))))"

text \<open>
  The bridge store of the repository's own test: one store for the platform
  \<^verbatim>\<open>whatsapp\<close>, in which the room \<^verbatim>\<open>!room4:beeper.local\<close> belongs to the contact
  \<^verbatim>\<open>user-1\<close>, named \<^verbatim>\<open>Bridge Name\<close>.  Every other path cannot be opened.
\<close>

definition exampleBridgeDB :: bridgeDB where
  "exampleBridgeDB =
     \<lparr>portalOtherUser = (\<lambda>mxid. if mxid = ''!room4:beeper.local'' then Inr (Some ''user-1'')
                                 else Inr None),
      ghostName = (\<lambda>i. if i = ''user-1'' then Inr (Some ''Bridge Name'') else Inr None)\<rparr>"

definition exampleBridgeFiles :: bridgeFiles where
  "exampleBridgeFiles path =
     (if path = ''/b/local-whatsapp/megabridge.db'' then Inr exampleBridgeDB
      else Inl ''unable to open database file'')"

definition exampleBridge :: BridgeLookup where
  "exampleBridge =
     \<lparr>platformDBs = [(''whatsapp'', ''/b/local-whatsapp/megabridge.db'')], cache = Map.empty\<rparr>"

section \<open>The database\<close>

text \<open>
  The functions that SQLite and the decoders contribute and that the program does not
  define: \<^verbatim>\<open>strconv.ParseFloat\<close> followed by the conversion to \<^verbatim>\<open>int64\<close>;
  \<^verbatim>\<open>jsonUnmarshalStrings\<close>, which decodes a JSON array of strings (\<open>None\<close> on an
  error); \<^verbatim>\<open>json.Unmarshal\<close>; the operator \<^verbatim>\<open>LIKE\<close> (pattern first); and
  \<^verbatim>\<open>json_extract(message, '$.text')\<close> as the text that \<^verbatim>\<open>LIKE\<close> compares
  (\<open>None\<close> for NULL).
\<close>

record Env =
  E_parseFloat :: "string \<Rightarrow> int option"
  E_jsonUnmarshalStrings :: "string \<Rightarrow> string list option"
  E_unmarshal :: "string \<Rightarrow> json option"
  E_like :: "string \<Rightarrow> string \<Rightarrow> bool"
  E_jsonText :: "string \<Rightarrow> string option"

text \<open>
  A row of the table \<^verbatim>\<open>threads\<close>: the columns \<^verbatim>\<open>threadID\<close>, \<^verbatim>\<open>accountID\<close> and
  \<^verbatim>\<open>timestamp\<close>, and the values that \<^verbatim>\<open>json_extract\<close> reads from the document in
  the column \<^verbatim>\<open>thread\<close>, each as \<^verbatim>\<open>database/sql\<close> scans it into the variable the
  program declares for it.
\<close>

record threadsRow =
  t_threadID :: string
  t_accountID :: NullString
  t_timestamp :: int
  t_title :: NullString
  t_name :: NullString
  t_type :: NullString
  t_isUnread :: NullInt64
  t_isMarkedUnread :: NullInt64
  t_isLowPriority :: NullInt64
  t_unreadCount :: NullInt64
  t_unreadMentionsCount :: NullInt64
  t_isArchivedUpto :: NullString
  t_isArchivedUpToOrder :: NullString
  t_tags :: NullString

text \<open>A row of \<^verbatim>\<open>mx_room_messages\<close> and a row of \<^verbatim>\<open>participants\<close>.\<close>

record messageRow =
  m_id :: int
  m_roomID :: string
  m_eventID :: string
  m_senderContactID :: string
  m_timestamp :: int
  m_isDeleted :: int
  m_type :: NullString
  m_hsOrder :: int
  m_isSentByMe :: int
  m_message :: NullString
  m_text_content :: NullString

record participantRow =
  p_room_id :: string
  p_id :: string
  p_full_name :: NullString
  p_nickname :: NullString
  p_is_self :: NullInt64

text \<open>
  The statements the program prepares, each with its arguments.
  \<^item> \<open>StmtHasFTS\<close>: the look-up of \<^verbatim>\<open>mx_room_messages_fts\<close> in \<^verbatim>\<open>sqlite_master\<close>.
  \<^item> \<open>StmtListThreads account cutoff limit\<close>: the statement of \<^verbatim>\<open>ListThreads\<close>; the
    clauses \<^verbatim>\<open>t.accountID = ?\<close> and \<^verbatim>\<open>t.timestamp >= ?\<close> are there when their
    argument is.
  \<^item> \<open>StmtGetThread threadID\<close>: the statement of \<^verbatim>\<open>GetThread\<close>.
  \<^item> \<open>StmtSearch useFTS arg room account cutoff limit\<close>: what \<^verbatim>\<open>buildQuery\<close> builds, the
    \<^verbatim>\<open>MATCH\<close> statement or the \<^verbatim>\<open>LIKE\<close> statement, with the optional clauses
    \<^verbatim>\<open>m.roomID = ?\<close>, \<^verbatim>\<open>m.roomID IN (SELECT threadID FROM threads WHERE accountID = ?)\<close>
    and \<^verbatim>\<open>m.timestamp >= ?\<close>.
  \<^item> \<open>StmtContext room start end\<close>: the statement of \<^verbatim>\<open>fetchContextMessages\<close>.
  \<^item> \<open>StmtThreadInfo ids\<close>, \<open>StmtParticipants ids\<close>: the statements of
    \<^verbatim>\<open>threadInfoByID\<close> and \<^verbatim>\<open>participantsByRoom\<close>.
\<close>

datatype stmt =
    StmtHasFTS
  | StmtListThreads "string option" "int option" int
  | StmtGetThread string
  | StmtSearch bool string "string option" "string option" "int option" int
  | StmtContext string int int
  | StmtThreadInfo "string list"
  | StmtParticipants "string list"

text \<open>
  The database: its tables in row order; whether \<^verbatim>\<open>sqlite_master\<close> lists the full-text
  table; the rows (\<^verbatim>\<open>rowid\<close> and \<^verbatim>\<open>bm25\<close> rank) the full-text index matches for a
  query; and the two ways in which a statement fails.  \<open>db_failure\<close> is the error that
  \<^verbatim>\<open>QueryContext\<close> returns for the statement (or \<^verbatim>\<open>QueryRowContext\<close> through the
  \<^verbatim>\<open>Scan\<close> of its row), if it returns one: a lost connection, a missing table or
  module.  \<open>db_rowsFailure\<close> is the error with which reading the rows of a statement
  ends after \<^verbatim>\<open>QueryContext\<close> has returned them, if it ends with one: the error of
  \<^verbatim>\<open>rows.Scan\<close> on a row that does not scan, or of \<^verbatim>\<open>rows.Err()\<close> after the loop.
\<close>

record DB =
  db_threads :: "threadsRow list"
  db_breadcrumbs :: "(string \<times> NullInt64) list"
  db_participants :: "participantRow list"
  db_messages :: "messageRow list"
  db_ftsTable :: bool
  db_ftsMatch :: "string \<Rightarrow> (int \<times> real) list"
  db_failure :: "stmt \<Rightarrow> error option"
  db_rowsFailure :: "stmt \<Rightarrow> error option"

definition nullInt64 :: NullInt64 where
  "nullInt64 = \<lparr>NI_Int64 = 0, NI_Valid = False\<rparr>"

definition nullString :: NullString where
  "nullString = \<lparr>NS_String = [], NS_Valid = False\<rparr>"

text \<open>\<^verbatim>\<open>type NOT IN ('HIDDEN','REACTION')\<close> and \<^verbatim>\<open>type != 'HIDDEN'\<close>; both are false of NULL.\<close>

definition notHiddenOrReaction :: "messageRow \<Rightarrow> bool" where
  "notHiddenOrReaction m =
     (NS_Valid (m_type m) \<and> NS_String (m_type m) \<noteq> ''HIDDEN'' \<and> NS_String (m_type m) \<noteq> ''REACTION'')"

definition notHidden :: "messageRow \<Rightarrow> bool" where
  "notHidden m = (NS_Valid (m_type m) \<and> NS_String (m_type m) \<noteq> ''HIDDEN'')"

text \<open>The aggregate \<^verbatim>\<open>MAX\<close>: NULL over no rows.\<close>

definition sqlMax :: "int list \<Rightarrow> NullInt64" where
  "sqlMax xs =
     (case xs of
        [] \<Rightarrow> nullInt64
      | x # rest \<Rightarrow> \<lparr>NI_Int64 = fold max rest x, NI_Valid = True\<rparr>)"

text \<open>
  A row of the result of the thread statements: the row of \<^verbatim>\<open>threads\<close>, the column
  \<^verbatim>\<open>lastOpenTime\<close> of the left join with \<^verbatim>\<open>breadcrumbs\<close>, and the three sub-selects.
\<close>

record threadResult =
  r_thread :: threadsRow
  r_lastOpenTime :: NullInt64
  r_lastMessageTime :: NullInt64
  r_latestHsOrder :: NullInt64
  r_totalMessages :: NullInt64

definition threadResultOf :: "DB \<Rightarrow> threadsRow \<Rightarrow> threadResult" where
  "threadResultOf db t =
     \<lparr>r_thread = t,
      r_lastOpenTime =
        (case map_of (db_breadcrumbs db) (t_threadID t) of Some v \<Rightarrow> v | None \<Rightarrow> nullInt64),
      r_lastMessageTime =
        sqlMax (map m_timestamp
          (filter (\<lambda>m. m_roomID m = t_threadID t \<and> notHiddenOrReaction m) (db_messages db))),
      r_latestHsOrder =
        sqlMax (map m_hsOrder
          (filter (\<lambda>m. m_roomID m = t_threadID t \<and> notHidden m) (db_messages db))),
      r_totalMessages =
        \<lparr>NI_Int64 = int (length
           (filter (\<lambda>m. m_roomID m = t_threadID t \<and> notHiddenOrReaction m) (db_messages db))),
         NI_Valid = True\<rparr>\<rparr>"


text \<open>
  Running a statement: the error, or the rows.  Rows that tie under \<^verbatim>\<open>ORDER BY\<close> come
  in an order SQLite does not specify; here they keep the order of the table.
\<close>

definition QueryContext :: "DB \<Rightarrow> stmt \<Rightarrow> 'a \<Rightarrow> error + 'a" where
  "QueryContext db s rows = (case db_failure db s of Some err \<Rightarrow> Inl err | None \<Rightarrow> Inr rows)"

text \<open>
  The loop \<^verbatim>\<open>for rows.Next()\<close> over the rows of a statement, with \<^verbatim>\<open>rows.Scan\<close> in
  its body and \<^verbatim>\<open>rows.Err()\<close> after it: the error, or the rows scanned.  Every function
  that runs this loop returns the error at once and nothing of what it has scanned so far.
\<close>

definition scanRows :: "DB \<Rightarrow> stmt \<Rightarrow> 'a \<Rightarrow> error + 'a" where
  "scanRows db s rows = (case db_rowsFailure db s of Some err \<Rightarrow> Inl err | None \<Rightarrow> Inr rows)"


definition getThreadRows :: "DB \<Rightarrow> string \<Rightarrow> threadResult list" where
  "getThreadRows db threadID =
     take 1 (map (threadResultOf db) (filter (\<lambda>t. t_threadID t = threadID) (db_threads db)))"

section \<open>Threads\<close>

definition defaultLimit :: int where
  "defaultLimit = 50"

definition unixMillis :: "int \<Rightarrow> Time" where
  "unixMillis ms = (if ms = 0 then zeroTime else UnixMilliTime ms)"

definition unixMillisOrZero :: "NullInt64 \<Rightarrow> Time" where
  "unixMillisOrZero v =
     (if \<not> NI_Valid v \<or> NI_Int64 v = 0 then zeroTime else UnixMilliTime (NI_Int64 v))"

definition maxTime :: "Time list \<Rightarrow> Time" where
  "maxTime ts = fold (\<lambda>t latest. if After t latest then t else latest) ts zeroTime"

definition parseTags :: "Env \<Rightarrow> string \<Rightarrow> string list" where
  "parseTags env raw =
     (let raw = TrimSpace raw in
      if raw = [] then []
      else (case E_jsonUnmarshalStrings env raw of
              Some tags \<Rightarrow> tags
            | None \<Rightarrow>
                (let lower = ToLower raw in
                 if Contains lower ''favourite'' then [''favourite''] else [])))"

fun uniqueFrom :: "string list \<Rightarrow> string list \<Rightarrow> string list" where
  "uniqueFrom seen [] = []"
| "uniqueFrom seen (v # values) =
     (if v = [] then uniqueFrom seen values
      else if v \<in> set seen then uniqueFrom seen values
      else v # uniqueFrom (v # seen) values)"

definition uniqueStrings :: "string list \<Rightarrow> string list" where
  "uniqueStrings values = uniqueFrom [] values"

text \<open>
  \<^verbatim>\<open>participantsByRoom\<close>.  The Go map from room to participants is a function here; a
  room without an entry has the empty list, which is what reading the Go map gives.
\<close>

definition participantOf :: "participantRow \<Rightarrow> Participant" where
  "participantOf row =
     (let name = TrimSpace (NS_String (p_full_name row));
          name = (if name = [] then TrimSpace (NS_String (p_nickname row)) else name);
          name = (if name = [] then p_id row else name)
      in \<lparr>P_ID = p_id row, P_Name = name,
          IsSelf = (NI_Valid (p_is_self row) \<and> NI_Int64 (p_is_self row) \<noteq> 0)\<rparr>)"

definition participantsByRoom :: "DB \<Rightarrow> string list \<Rightarrow> error + (string \<Rightarrow> Participant list)" where
  "participantsByRoom db roomIDs =
     (let roomIDs = uniqueStrings roomIDs in
      if roomIDs = [] then Inr (\<lambda>room. [])
      else (case QueryContext db (StmtParticipants roomIDs)
                   (filter (\<lambda>row. p_room_id row \<in> set roomIDs) (db_participants db)) of
              Inl err \<Rightarrow> Inl err
            | Inr rows \<Rightarrow>
                (case scanRows db (StmtParticipants roomIDs) rows of
                   Inl err \<Rightarrow> Inl err
                 | Inr rows \<Rightarrow>
                     Inr (\<lambda>room. map participantOf
                                  (filter (\<lambda>row. p_room_id row = room) rows)))))"

text \<open>
  The assignments that \<^verbatim>\<open>ListThreads\<close> and \<^verbatim>\<open>GetThread\<close> both make from a scanned
  row, up to \<^verbatim>\<open>IsArchived\<close>.
\<close>

definition threadOfRow :: "Env \<Rightarrow> threadResult \<Rightarrow> Thread" where
  "threadOfRow env r =
     (let t = r_thread r;
          lastOpen = unixMillisOrZero (r_lastOpenTime r);
          lastMessage = unixMillisOrZero (r_lastMessageTime r)
      in \<lparr>ID = t_threadID t,
          AccountID = NS_String (t_accountID t),
          Title = TrimSpace (NS_String (t_title t)),
          Name = TrimSpace (NS_String (t_name t)),
          Type = TrimSpace (NS_String (t_type t)),
          DisplayName = [],
          LastActivity = maxTime [lastMessage, lastOpen, unixMillis (t_timestamp t)],
          LastMessage = lastMessage,
          LastOpen = lastOpen,
          IsUnread = (NI_Valid (t_isUnread t) \<and> NI_Int64 (t_isUnread t) \<noteq> 0),
          IsMarkedUnread = (NI_Valid (t_isMarkedUnread t) \<and> NI_Int64 (t_isMarkedUnread t) \<noteq> 0),
          IsLowPriority = (NI_Valid (t_isLowPriority t) \<and> NI_Int64 (t_isLowPriority t) \<noteq> 0),
          IsArchived =
            computeArchived (E_parseFloat env) (t_isArchivedUpto t) (t_isArchivedUpToOrder t)
              (r_latestHsOrder r) (r_lastMessageTime r),
          UnreadCount = (if NI_Valid (t_unreadCount t) then NI_Int64 (t_unreadCount t) else 0),
          UnreadMentions =
            (if NI_Valid (t_unreadMentionsCount t) then NI_Int64 (t_unreadMentionsCount t) else 0),
          TotalMessages = 0,
          Tags = parseTags env (NS_String (t_tags t)),
          Participants = []\<rparr>)"

text \<open>
  \<^verbatim>\<open>GetThread\<close>.  The functions of the store take the database and the bridge of the
  store and return, with their result, the bridge after the call.
\<close>

definition GetThread ::
  "Env \<Rightarrow> bridgeFiles \<Rightarrow> DB \<Rightarrow> BridgeLookup option \<Rightarrow> string \<Rightarrow> bool \<Rightarrow>
     (error + Thread) \<times> BridgeLookup option" where
  "GetThread env files db bridge threadID withStats =
     (case QueryContext db (StmtGetThread threadID) (getThreadRows db threadID) of
        Inl err \<Rightarrow> (Inl err, bridge)
      | Inr [] \<Rightarrow> (Inl ''sql: no rows in result set'', bridge)
      | Inr (r # rest) \<Rightarrow>
          (let thread = threadOfRow env r;
               thread = (if withStats \<and> NI_Valid (r_totalMessages r)
                         then thread\<lparr>TotalMessages := NI_Int64 (r_totalMessages r)\<rparr>
                         else thread)
           in (case participantsByRoom db [threadID] of
                 Inl err \<Rightarrow> (Inl err, bridge)
               | Inr byRoom \<Rightarrow>
                   (let thread = thread\<lparr>Participants := byRoom threadID\<rparr>;
                        (name, bridge', opened) =
                          displayName files bridge thread (Participants thread);
                        thread = thread\<lparr>DisplayName := name\<rparr>;
                        thread = (if \<not> withStats
                                  then thread\<lparr>LastMessage := zeroTime, LastOpen := zeroTime,
                                              TotalMessages := 0\<rparr>
                                  else thread)
                    in (Inr thread, bridge')))))"





section \<open>Messages and search\<close>

definition defaultContextWindow :: int where
  "defaultContextWindow = Hour"

record Message =
  M_ID :: int
  EventID :: string
  ThreadID :: string
  ThreadName :: string
  M_AccountID :: string
  SenderID :: string
  SenderName :: string
  Timestamp :: Time
  IsSentByMe :: bool
  M_Type :: string
  Text :: string
  Score :: real

record SearchResult =
  Match :: Message
  Context :: "Message list"

record SearchOptions =
  Query :: string
  SO_ThreadID :: string
  SO_Days :: int
  SO_Limit :: int
  SO_AccountID :: string
  SO_Context :: int
  Window :: int
  Format :: string

record threadInfo =
  TI_AccountID :: string
  TI_Title :: string
  TI_Name :: string
  TI_Type :: string

definition HasFTS :: "DB \<Rightarrow> error + bool" where
  "HasFTS db = QueryContext db StmtHasFTS (db_ftsTable db)"

definition isFTSError :: "error \<Rightarrow> bool" where
  "isFTSError err =
     (let msg = ToLower err in
      Contains msg ''no such module: fts5'' \<or> Contains msg ''no such table: mx_room_messages_fts'')"

text \<open>\<^verbatim>\<open>COALESCE(column, '')\<close>, scanned into a \<^verbatim>\<open>sql.NullString\<close> and read as a string.\<close>

definition coalesceEmpty :: "NullString \<Rightarrow> string" where
  "coalesceEmpty v = (if NS_Valid v then NS_String v else [])"

text \<open>
  The scan of a message row and the assignments that follow it, the same in
  \<^verbatim>\<open>SearchMessages\<close> (with the column \<^verbatim>\<open>rank\<close>) and in
  \<^verbatim>\<open>fetchContextMessages\<close> (without it: the score stays 0).
\<close>

definition messageOfRow :: "Env \<Rightarrow> string \<Rightarrow> messageRow \<Rightarrow> real \<Rightarrow> Message" where
  "messageOfRow env format m rank =
     (let msgType = TrimSpace (NS_String (m_type m)) in
      \<lparr>M_ID = m_id m,
       EventID = m_eventID m,
       ThreadID = m_roomID m,
       ThreadName = [],
       M_AccountID = [],
       SenderID = m_senderContactID m,
       SenderName = [],
       Timestamp = unixMillis (m_timestamp m),
       IsSentByMe = (m_isSentByMe m \<noteq> 0),
       M_Type = msgType,
       Text = ResolveMessageText (E_unmarshal env) (coalesceEmpty (m_message m)) msgType
                (coalesceEmpty (m_text_content m)) format,
       Score = rank\<rparr>)"

text \<open>
  \<^verbatim>\<open>buildQuery\<close>, the closure of \<^verbatim>\<open>SearchMessages\<close>.  \<open>cutoff\<close> is the value of
  \<^verbatim>\<open>time.Now().AddDate(0, 0, -opts.Days).UnixMilli()\<close> at this call.
\<close>

definition buildQuery :: "SearchOptions \<Rightarrow> int \<Rightarrow> int \<Rightarrow> bool \<Rightarrow> stmt" where
  "buildQuery opts limit cutoff useFTS =
     StmtSearch useFTS
       (if useFTS then Query opts else ''%'' @ Query opts @ ''%'')
       (if SO_ThreadID opts \<noteq> [] then Some (SO_ThreadID opts) else None)
       (if SO_AccountID opts \<noteq> [] then Some (SO_AccountID opts) else None)
       (if SO_Days opts > 0 then Some cutoff else None)
       limit"

text \<open>
  The rows of a search statement.  With the index: the join of the matched index rows with
  the messages on \<^verbatim>\<open>m.id = f.rowid\<close>, the rank being \<^verbatim>\<open>bm25(f)\<close>.  Without:
  the messages whose \<^verbatim>\<open>json_extract(m.message,'$.text')\<close> is \<^verbatim>\<open>LIKE\<close> the argument,
  the rank being the constant 0.  Then the clauses \<^verbatim>\<open>m.isDeleted = 0\<close>,
  \<^verbatim>\<open>m.type NOT IN ('HIDDEN','REACTION')\<close> and the optional ones, the order
  \<^verbatim>\<open>rank ASC, m.timestamp DESC\<close> and the limit.
\<close>

fun searchRows :: "Env \<Rightarrow> DB \<Rightarrow> stmt \<Rightarrow> (messageRow \<times> real) list" where
  "searchRows env db (StmtSearch useFTS arg room account cutoff limit) =
     (let candidates =
            (if useFTS then
               concat (map (\<lambda>(rowid, rank).
                              map (\<lambda>m. (m, rank)) (filter (\<lambda>m. m_id m = rowid) (db_messages db)))
                         (db_ftsMatch db arg))
             else
               map (\<lambda>m. (m, 0))
                 (filter (\<lambda>m. NS_Valid (m_message m) \<and>
                               (case E_jsonText env (NS_String (m_message m)) of
                                  Some t \<Rightarrow> E_like env arg t
                                | None \<Rightarrow> False))
                    (db_messages db)));
          selected =
            filter (\<lambda>(m, rank).
                      m_isDeleted m = 0 \<and> notHiddenOrReaction m
                      \<and> (case room of None \<Rightarrow> True | Some r \<Rightarrow> m_roomID m = r)
                      \<and> (case account of
                            None \<Rightarrow> True
                          | Some a \<Rightarrow>
                              m_roomID m \<in> set (map t_threadID
                                (filter (\<lambda>t. NS_Valid (t_accountID t) \<and> NS_String (t_accountID t) = a)
                                   (db_threads db))))
                      \<and> (case cutoff of None \<Rightarrow> True | Some c \<Rightarrow> c \<le> m_timestamp m))
              candidates
      in take (nat limit) (sort_key snd (sort_key (\<lambda>(m, rank). - m_timestamp m) selected)))"
| "searchRows env db other = []"

text \<open>
  The rows of the statement of \<^verbatim>\<open>fetchContextMessages\<close>:
  \<^verbatim>\<open>WHERE roomID = ? AND timestamp BETWEEN ? AND ? AND isDeleted = 0 AND type NOT IN ('HIDDEN','REACTION') ORDER BY timestamp ASC\<close>.
\<close>

definition contextRows :: "DB \<Rightarrow> string \<Rightarrow> int \<Rightarrow> int \<Rightarrow> messageRow list" where
  "contextRows db room start end' =
     sort_key m_timestamp
       (filter (\<lambda>m. m_roomID m = room \<and> start \<le> m_timestamp m \<and> m_timestamp m \<le> end'
                     \<and> m_isDeleted m = 0 \<and> notHiddenOrReaction m)
          (db_messages db))"

definition emptyThreadInfo :: threadInfo where
  "emptyThreadInfo = \<lparr>TI_AccountID = [], TI_Title = [], TI_Name = [], TI_Type = []\<rparr>"

definition threadInfoOf :: "threadsRow \<Rightarrow> threadInfo" where
  "threadInfoOf t =
     \<lparr>TI_AccountID = NS_String (t_accountID t),
      TI_Title = TrimSpace (NS_String (t_title t)),
      TI_Name = TrimSpace (NS_String (t_name t)),
      TI_Type = TrimSpace (NS_String (t_type t))\<rparr>"

text \<open>\<^verbatim>\<open>threadInfoByID\<close>; reading the Go map at a missing key gives the zero value.\<close>

definition threadInfoByID :: "DB \<Rightarrow> string list \<Rightarrow> error + (string \<Rightarrow> threadInfo)" where
  "threadInfoByID db ids =
     (if ids = [] then Inr (\<lambda>i. emptyThreadInfo)
      else (case QueryContext db (StmtThreadInfo ids)
                   (filter (\<lambda>t. t_threadID t \<in> set ids) (db_threads db)) of
              Inl err \<Rightarrow> Inl err
            | Inr rows \<Rightarrow>
                (case scanRows db (StmtThreadInfo ids) rows of
                   Inl err \<Rightarrow> Inl err
                 | Inr rows \<Rightarrow>
                     Inr (\<lambda>i. (case filter (\<lambda>t. t_threadID t = i) rows of
                                  [] \<Rightarrow> emptyThreadInfo
                                | r # rest \<Rightarrow> threadInfoOf (last (r # rest)))))))"

text \<open>\<^verbatim>\<open>indexParticipants\<close>: a later participant with the same ID replaces an earlier one.\<close>

definition indexParticipants :: "Participant list \<Rightarrow> (string \<rightharpoonup> Participant)" where
  "indexParticipants ps = map_of (rev (map (\<lambda>p. (P_ID p, p)) ps))"

definition threadOfInfo :: "string \<Rightarrow> threadInfo \<Rightarrow> Thread" where
  "threadOfInfo threadID info =
     emptyThread\<lparr>ID := threadID, Title := TI_Title info, Name := TI_Name info,
                 Type := TI_Type info, AccountID := TI_AccountID info\<rparr>"

text \<open>
  \<^verbatim>\<open>make([]Message, 0, n)\<close> panics when \<open>n\<close> is negative or when \<open>n\<close> elements
  take more than the runtime allocates at most (\<open>2 ^ 48\<close> bytes on 64-bit Linux; a
  \<^verbatim>\<open>Message\<close> takes 176 bytes there).
\<close>

definition makePanics :: "int \<Rightarrow> bool" where
  "makePanics n = (n < 0 \<or> 2 ^ 48 < n * 176)"

text \<open>The first loop of \<^verbatim>\<open>trimContext\<close>: the index of the first message with the ID.\<close>

fun indexOfID :: "Message list \<Rightarrow> int \<Rightarrow> nat option" where
  "indexOfID [] matchID = None"
| "indexOfID (msg # rest) matchID =
     (if M_ID msg = matchID then Some 0
      else (case indexOfID rest matchID of None \<Rightarrow> None | Some i \<Rightarrow> Some (Suc i)))"

text \<open>
  \<^verbatim>\<open>trimContext\<close>.  \<^verbatim>\<open>context\<close> is a Go \<^verbatim>\<open>int\<close>: the sums and differences
  wrap around at 64 bits.  The second loop appends the messages at the indices from
  \<open>start\<close> up to \<open>end\<close>, without the index of the match.
\<close>

definition trimContext :: "Message list \<Rightarrow> int \<Rightarrow> int \<Rightarrow> error + Message list" where
  "trimContext msgs matchID context =
     (if context \<le> 0 \<or> msgs = [] then Inr msgs
      else (case indexOfID msgs matchID of
              None \<Rightarrow> Inr msgs
            | Some idx \<Rightarrow>
                (let start = wrap64 (int idx - context);
                     start = (if start < 0 then 0 else start);
                     end' = wrap64 (wrap64 (int idx + context) + 1);
                     end' = (if end' > int (length msgs) then int (length msgs) else end')
                 in if makePanics (wrap64 (wrap64 (end' - start) - 1))
                    then Inl ''panic: runtime error: makeslice: cap out of range''
                    else Inr (map (\<lambda>i. msgs ! nat i)
                                (filter (\<lambda>i. i \<noteq> int idx) [start .. end' - 1])))))"

text \<open>The assignments to a context message in the last loop of \<^verbatim>\<open>fetchContextMessages\<close>.\<close>

definition nameSender :: "(string \<rightharpoonup> Participant) \<Rightarrow> Message \<Rightarrow> Message" where
  "nameSender participantIndex msg =
     (case participantIndex (SenderID msg) of
        Some p \<Rightarrow> msg\<lparr>SenderName := P_Name p\<rparr>
      | None \<Rightarrow> msg)"

definition fetchContextMessages ::
  "Env \<Rightarrow> bridgeFiles \<Rightarrow> DB \<Rightarrow> BridgeLookup option \<Rightarrow> Message \<Rightarrow> SearchOptions \<Rightarrow>
     (string \<Rightarrow> Participant list) \<Rightarrow> (string \<Rightarrow> threadInfo) \<Rightarrow>
     (error + Message list) \<times> BridgeLookup option" where
  "fetchContextMessages env files db bridge match opts byRoom infos =
     (let window = (if Window opts = 0 then defaultContextWindow else Window opts);
          start = UnixMilli (Add (Timestamp match) (wrap64 (- window)));
          end' = UnixMilli (Add (Timestamp match) window)
      in (case QueryContext db (StmtContext (ThreadID match) start end')
                 (contextRows db (ThreadID match) start end') of
            Inl err \<Rightarrow> (Inl err, bridge)
          | Inr rows \<Rightarrow>
              (case scanRows db (StmtContext (ThreadID match) start end') rows of
                 Inl err \<Rightarrow> (Inl err, bridge)
               | Inr rows \<Rightarrow>
                   (let msgs = map (\<lambda>m. messageOfRow env (Format opts) m 0) rows;
                        ps = byRoom (ThreadID match);
                        participantIndex = indexParticipants ps;
                        info = infos (ThreadID match);
                        (threadName, bridge', opened) =
                          displayName files bridge (threadOfInfo (ThreadID match) info) ps;
                        msgs = map (\<lambda>msg. nameSender participantIndex
                                       (msg\<lparr>M_AccountID := TI_AccountID info,
                                            ThreadName := threadName\<rparr>)) msgs
                    in if SO_Context opts > 0
                       then (trimContext msgs (M_ID match) (SO_Context opts), bridge')
                       else (Inr msgs, bridge')))))"

text \<open>The loop of \<^verbatim>\<open>SearchMessages\<close> that fills in account, thread name and sender name.\<close>

fun nameMatches ::
  "bridgeFiles \<Rightarrow> BridgeLookup option \<Rightarrow> (string \<Rightarrow> threadInfo) \<Rightarrow>
     (string \<Rightarrow> Participant list) \<Rightarrow> Message list \<Rightarrow> Message list \<times> BridgeLookup option" where
  "nameMatches files bridge infos byRoom [] = ([], bridge)"
| "nameMatches files bridge infos byRoom (match # rest) =
     (let info = infos (ThreadID match);
          (threadName, bridge', opened) =
            displayName files bridge (threadOfInfo (ThreadID match) info)
              (byRoom (ThreadID match));
          match = nameSender (indexParticipants (byRoom (ThreadID match)))
                    (match\<lparr>M_AccountID := TI_AccountID info, ThreadName := threadName\<rparr>);
          (named, bridge'') = nameMatches files bridge' infos byRoom rest
      in (match # named, bridge''))"

text \<open>The loop of \<^verbatim>\<open>SearchMessages\<close> that builds the results; it stops at the first error.\<close>

fun searchResults ::
  "Env \<Rightarrow> bridgeFiles \<Rightarrow> DB \<Rightarrow> BridgeLookup option \<Rightarrow> SearchOptions \<Rightarrow>
     (string \<Rightarrow> Participant list) \<Rightarrow> (string \<Rightarrow> threadInfo) \<Rightarrow> Message list \<Rightarrow>
     (error + SearchResult list) \<times> BridgeLookup option" where
  "searchResults env files db bridge opts byRoom infos [] = (Inr [], bridge)"
| "searchResults env files db bridge opts byRoom infos (match # rest) =
     (if SO_Context opts > 0 \<or> Window opts > 0 then
        (case fetchContextMessages env files db bridge match opts byRoom infos of
           (Inl err, bridge') \<Rightarrow> (Inl err, bridge')
         | (Inr contextMessages, bridge') \<Rightarrow>
             (case searchResults env files db bridge' opts byRoom infos rest of
                (Inl err, bridge'') \<Rightarrow> (Inl err, bridge'')
              | (Inr results, bridge'') \<Rightarrow>
                  (Inr (\<lparr>Match = match, Context = contextMessages\<rparr> # results), bridge'')))
      else
        (case searchResults env files db bridge opts byRoom infos rest of
           (Inl err, bridge'') \<Rightarrow> (Inl err, bridge'')
         | (Inr results, bridge'') \<Rightarrow>
             (Inr (\<lparr>Match = match, Context = []\<rparr> # results), bridge'')))"

text \<open>
  What \<^verbatim>\<open>SearchMessages\<close> does with the scanned rows of its statement: the
  assignments to each match, the thread and participant look-ups, and the two loops.
\<close>

definition assembleResults ::
  "Env \<Rightarrow> bridgeFiles \<Rightarrow> DB \<Rightarrow> BridgeLookup option \<Rightarrow> SearchOptions \<Rightarrow>
     (messageRow \<times> real) list \<Rightarrow> (error + SearchResult list) \<times> BridgeLookup option" where
  "assembleResults env files db bridge opts rows =
     (let matches = map (\<lambda>(m, rank). messageOfRow env (Format opts) m rank) rows;
          roomIDs = map ThreadID matches
      in (case threadInfoByID db (uniqueStrings roomIDs) of
            Inl err \<Rightarrow> (Inl err, bridge)
          | Inr infos \<Rightarrow>
              (case participantsByRoom db (uniqueStrings roomIDs) of
                 Inl err \<Rightarrow> (Inl err, bridge)
               | Inr byRoom \<Rightarrow>
                   (case nameMatches files bridge infos byRoom matches of
                      (named, bridge') \<Rightarrow>
                        searchResults env files db bridge' opts byRoom infos named))))"

text \<open>
  \<^verbatim>\<open>SearchMessages\<close>.  \<open>clock k\<close> is the cut-off that the \<open>k\<close>-th call of
  \<^verbatim>\<open>buildQuery\<close> computes from the time of day.  The test \<^verbatim>\<open>isFTSError\<close> is
  applied to the error that \<^verbatim>\<open>QueryContext\<close> returns for the first statement, and to
  no other: an error met while the rows are read is returned as it is.
\<close>

definition SearchMessages ::
  "Env \<Rightarrow> bridgeFiles \<Rightarrow> DB \<Rightarrow> BridgeLookup option \<Rightarrow> (nat \<Rightarrow> int) \<Rightarrow> SearchOptions \<Rightarrow>
     (error + SearchResult list) \<times> BridgeLookup option" where
  "SearchMessages env files db bridge clock opts =
     (if TrimSpace (Query opts) = [] then (Inl ''search query is required'', bridge)
      else
        (let limit = (if SO_Limit opts \<le> 0 then defaultLimit else SO_Limit opts) in
         (case HasFTS db of
            Inl err \<Rightarrow> (Inl err, bridge)
          | Inr useFTS \<Rightarrow>
              (let queryStr = buildQuery opts limit (clock 0) useFTS;
                   rows = QueryContext db queryStr (searchRows env db queryStr);
                   (queryStr, rows) =
                     (case rows of
                        Inl err \<Rightarrow>
                          if useFTS \<and> isFTSError err then
                            (let queryStr = buildQuery opts limit (clock 1) False
                             in (queryStr, QueryContext db queryStr (searchRows env db queryStr)))
                          else (queryStr, Inl err)
                      | Inr found \<Rightarrow> (queryStr, Inr found))
               in (case rows of
                     Inl err \<Rightarrow> (Inl err, bridge)
                   | Inr found \<Rightarrow>
                       (case scanRows db queryStr found of
                          Inl err \<Rightarrow> (Inl err, bridge)
                        | Inr found \<Rightarrow> assembleResults env files db bridge opts found))))))"

section \<open>An example database\<close>

text \<open>
  Two group threads in the manner of the repository's test database.  The first has three
  messages, the last at \<open>1700000000300\<close>, and was opened at \<open>1700000000900\<close>; the
  second has one message, at \<open>1700000000400\<close>, and was never opened.  The full-text index
  matches the query \<^verbatim>\<open>christmas\<close> at message 2.  No statement fails.

  The example environment decodes the example payloads only; its \<^verbatim>\<open>LIKE\<close> is the
  one of SQLite for a pattern \<^verbatim>\<open>%q%\<close> whose \<open>q\<close> has no wildcard: \<open>q\<close> occurs in the
  value, ASCII case ignored.
\<close>

definition exampleThread :: "string \<Rightarrow> string \<Rightarrow> string \<Rightarrow> threadsRow" where
  "exampleThread threadID account title =
     \<lparr>t_threadID = threadID,
      t_accountID = \<lparr>NS_String = account, NS_Valid = True\<rparr>,
      t_timestamp = 1700000000000,
      t_title = \<lparr>NS_String = title, NS_Valid = True\<rparr>,
      t_name = nullString,
      t_type = \<lparr>NS_String = ''group'', NS_Valid = True\<rparr>,
      t_isUnread = nullInt64, t_isMarkedUnread = nullInt64, t_isLowPriority = nullInt64,
      t_unreadCount = nullInt64, t_unreadMentionsCount = nullInt64,
      t_isArchivedUpto = nullString, t_isArchivedUpToOrder = nullString,
      t_tags = nullString\<rparr>"

definition exampleMessage :: \<open>int \<Rightarrow> string \<Rightarrow> int \<Rightarrow> string \<Rightarrow> messageRow\<close> where
  \<open>exampleMessage i room ts body =
     \<lparr>m_id = i, m_roomID = room, m_eventID = ''$evt'' @ formatInt i,
      m_senderContactID = ''@alice:beeper.local'', m_timestamp = ts, m_isDeleted = 0,
      m_type = \<lparr>NS_String = ''TEXT'', NS_Valid = True\<rparr>, m_hsOrder = i, m_isSentByMe = 0,
      m_message = \<lparr>NS_String = ''{"text":"'' @ body @ ''"}'', NS_Valid = True\<rparr>,
      m_text_content = \<lparr>NS_String = body, NS_Valid = True\<rparr>\<rparr>\<close>

definition exampleDB :: DB where
  "exampleDB =
     \<lparr>db_threads = [exampleThread ''!room1:beeper.local'' ''whatsapp'' ''Team Chat'',
                    exampleThread ''!room2:beeper.local'' ''telegram'' ''Family''],
      db_breadcrumbs =
        [(''!room1:beeper.local'', \<lparr>NI_Int64 = 1700000000900, NI_Valid = True\<rparr>)],
      db_participants =
        [\<lparr>p_room_id = ''!room1:beeper.local'', p_id = ''@alice:beeper.local'',
          p_full_name = \<lparr>NS_String = ''Alice'', NS_Valid = True\<rparr>,
          p_nickname = nullString, p_is_self = \<lparr>NI_Int64 = 0, NI_Valid = True\<rparr>\<rparr>],
      db_messages =
        [exampleMessage 1 ''!room1:beeper.local'' 1700000000100 ''hello'',
         exampleMessage 2 ''!room1:beeper.local'' 1700000000200 ''christmas party'',
         exampleMessage 3 ''!room1:beeper.local'' 1700000000300 ''see you'',
         exampleMessage 4 ''!room2:beeper.local'' 1700000000400 ''invoice due''],
      db_ftsTable = True,
      db_ftsMatch = (\<lambda>q. if q = ''christmas'' then [(2, - 1)] else []),
      db_failure = (\<lambda>s. None),
      db_rowsFailure = (\<lambda>s. None)\<rparr>"

definition exampleEnv :: Env where
  "exampleEnv =
     \<lparr>E_parseFloat = (\<lambda>s. None),
      E_jsonUnmarshalStrings = (\<lambda>s. None),
      E_unmarshal = exampleUnmarshal,
      E_like = (\<lambda>pattern v. Contains (ToLower v) (ToLower (drop 1 (butlast pattern)))),
      E_jsonText =
        (\<lambda>raw. case exampleUnmarshal raw of
                  Some (JObject payload) \<Rightarrow>
                    (case map_of payload ''text'' of Some (JString s) \<Rightarrow> Some s | _ \<Rightarrow> None)
                | _ \<Rightarrow> None)\<rparr>"


definition exampleSearchOptions :: SearchOptions where
  "exampleSearchOptions =
     \<lparr>Query = ''christmas'', SO_ThreadID = [], SO_Days = 0, SO_Limit = 0, SO_AccountID = [],
      SO_Context = 0, Window = 0, Format = FormatPlain\<rparr>"

text \<open>
  The example database where \<^verbatim>\<open>sqlite_master\<close> lists the full-text table but the
  module is not there: \<^verbatim>\<open>QueryContext\<close> fails on every \<^verbatim>\<open>MATCH\<close> statement.
\<close>

definition exampleNoModule :: DB where
  "exampleNoModule =
     exampleDB\<lparr>db_failure :=
       (\<lambda>s. case s of
               StmtSearch useFTS arg room account cutoff limit \<Rightarrow>
                 if useFTS then Some ''no such module: fts5'' else None
             | _ \<Rightarrow> None)\<rparr>"

section \<open>Properties of the classification engine\<close>

text \<open>
  \<^verbatim>\<open>parseArchivedValue\<close> strips a leading \<open>ts\<close>, in either letter case, and nothing
  else.
\<close>

lemma lowerByte_eq:
  assumes "lowerByte c = d" and "n = (of_char d :: nat)" and "97 \<le> n" and "n \<le> 122"
  shows "c = d \<or> c = char_of (n - 32)"
proof (cases "65 \<le> (of_char c :: nat) \<and> (of_char c :: nat) \<le> 90")
  case True
  with assms(1) have "char_of ((of_char c :: nat) + 32) = d"
    by (simp add: lowerByte_def Let_def)
  then have "(of_char (char_of ((of_char c :: nat) + 32)) :: nat) = n"
    using assms(2) by simp
  then have "((of_char c :: nat) + 32) mod 256 = n"
    by (simp add: of_char_of)
  with True have "(of_char c :: nat) = n - 32"
    by simp
  then have "char_of (of_char c :: nat) = (char_of (n - 32) :: char)"
    by simp
  then show ?thesis
    by simp
next
  case False
  with assms(1) show ?thesis
    by (simp add: lowerByte_def Let_def)
qed

lemma lowerByte_t: "lowerByte c = CHR ''t'' \<longleftrightarrow> c = CHR ''t'' \<or> c = CHR ''T''"
proof
  assume "lowerByte c = CHR ''t''"
  from lowerByte_eq [OF this, of 116] have "c = CHR ''t'' \<or> c = char_of (84 :: nat)"
    by simp
  moreover have "char_of (84 :: nat) = CHR ''T''"
    by code_simp
  ultimately show "c = CHR ''t'' \<or> c = CHR ''T''"
    by simp
next
  have "lowerByte CHR ''t'' = CHR ''t''" "lowerByte CHR ''T'' = CHR ''t''"
    by code_simp+
  then show "c = CHR ''t'' \<or> c = CHR ''T'' \<Longrightarrow> lowerByte c = CHR ''t''"
    by auto
qed

lemma lowerByte_s: "lowerByte c = CHR ''s'' \<longleftrightarrow> c = CHR ''s'' \<or> c = CHR ''S''"
proof
  assume "lowerByte c = CHR ''s''"
  from lowerByte_eq [OF this, of 115] have "c = CHR ''s'' \<or> c = char_of (83 :: nat)"
    by simp
  moreover have "char_of (83 :: nat) = CHR ''S''"
    by code_simp
  ultimately show "c = CHR ''s'' \<or> c = CHR ''S''"
    by simp
next
  have "lowerByte CHR ''s'' = CHR ''s''" "lowerByte CHR ''S'' = CHR ''s''"
    by code_simp+
  then show "c = CHR ''s'' \<or> c = CHR ''S'' \<Longrightarrow> lowerByte c = CHR ''s''"
    by auto
qed

lemma HasPrefix_ts:
  "HasPrefix (ToLower s) ''ts'' \<longleftrightarrow>
     (\<exists>c d r. s = c # d # r \<and> (c = CHR ''t'' \<or> c = CHR ''T'') \<and> (d = CHR ''s'' \<or> d = CHR ''S''))"
proof (cases s)
  case Nil
  then show ?thesis by (simp add: HasPrefix_def ToLower_def)
next
  case (Cons c s')
  show ?thesis
  proof (cases s')
    case Nil
    with Cons show ?thesis by (simp add: HasPrefix_def ToLower_def)
  next
    case (Cons d r)
    with \<open>s = c # s'\<close> show ?thesis
      by (simp add: HasPrefix_def ToLower_def lowerByte_t lowerByte_s)
  qed
qed

lemma parseArchivedValue_reading:
  "parseArchivedValue pf v =
     (if \<not> NS_Valid v then None
      else let s = TrimSpace (NS_String v);
               rest = (if \<exists>c d r. s = c # d # r \<and> (c = CHR ''t'' \<or> c = CHR ''T'')
                                   \<and> (d = CHR ''s'' \<or> d = CHR ''S'')
                       then drop 2 s else s)
           in if rest = [] then None
              else (case ParseInt rest of Some n \<Rightarrow> Some n | None \<Rightarrow> pf rest))"
  unfolding parseArchivedValue_def Let_def HasPrefix_ts
  by (auto split: option.splits)

text \<open>\<^verbatim>\<open>ParseInt\<close> reads a string of digits without a sign as the number it writes.\<close>

lemma ParseInt_unsigned:
  assumes "s \<noteq> []" and "hd s \<noteq> CHR ''+''" and "hd s \<noteq> CHR ''-''"
  shows "ParseInt s =
           (if list_all isDigit s \<and> minInt64 \<le> digitsValue 0 s \<and> digitsValue 0 s \<le> maxInt64
            then Some (digitsValue 0 s) else None)"
  using assms by (cases s) (auto simp: ParseInt_def Let_def)

lemma isDigit_range: "isDigit c \<Longrightarrow> 48 \<le> (of_char c :: nat) \<and> (of_char c :: nat) \<le> 57"
  by (simp add: isDigit_def Let_def)

lemma digitsValue_nonneg:
  "list_all isDigit ds \<Longrightarrow> 0 \<le> acc \<Longrightarrow> 0 \<le> digitsValue acc ds"
proof (induction ds arbitrary: acc)
  case Nil
  then show ?case by simp
next
  case (Cons c cs)
  from Cons.prems have "48 \<le> (of_char c :: nat)"
    by (simp add: isDigit_range)
  with Cons.prems have "0 \<le> acc * 10 + (int (of_char c) - 48)"
    by simp
  with Cons show ?case
    by simp
qed

lemma ParseInt_digits:
  assumes "ds \<noteq> []" and "list_all isDigit ds" and "digitsValue 0 ds \<le> maxInt64"
  shows "ParseInt ds = Some (digitsValue 0 ds)"
proof -
  from assms have d: "isDigit (hd ds)"
    by (cases ds) simp_all
  have "\<not> isDigit CHR ''+''" "\<not> isDigit CHR ''-''"
    by code_simp+
  with d have "hd ds \<noteq> CHR ''+''" "hd ds \<noteq> CHR ''-''"
    by auto
  moreover have "minInt64 \<le> digitsValue 0 ds"
    using digitsValue_nonneg [OF assms(2), of 0] by (simp add: minInt64_def)
  ultimately show ?thesis
    using assms by (simp add: ParseInt_unsigned)
qed

text \<open>
  \<^verbatim>\<open>TrimSpace\<close> leaves a string as it is that starts and ends with a printable ASCII
  character other than the space.
\<close>

lemma spaceRunes_printable:
  assumes "r \<in> set spaceRunes"
  shows "\<not> (33 \<le> (of_char (hd r) :: nat) \<and> (of_char (hd r) :: nat) \<le> 126)
       \<and> \<not> (33 \<le> (of_char (last r) :: nat) \<and> (of_char (last r) :: nat) \<le> 126)"
  using assms by (auto simp: spaceRunes_def)

lemma TrimSpace_printable:
  assumes "s \<noteq> []"
    and "33 \<le> (of_char (hd s) :: nat)" and "(of_char (hd s) :: nat) \<le> 126"
    and "33 \<le> (of_char (last s) :: nat)" and "(of_char (last s) :: nat) \<le> 126"
  shows "TrimSpace s = s"
proof -
  have empty: "[] \<notin> set spaceRunes"
    by (simp add: spaceRunes_def)
  have front: "take k s \<notin> set spaceRunes" for k
  proof (cases k)
    case 0
    with empty show ?thesis by simp
  next
    case (Suc j)
    with assms(1) have "hd (take k s) = hd s"
      by (cases s) simp_all
    with assms(2,3) spaceRunes_printable show ?thesis
      by metis
  qed
  have behind: "rev (take k (rev s)) \<notin> set spaceRunes" for k
  proof (cases k)
    case 0
    with empty show ?thesis by simp
  next
    case (Suc j)
    with assms(1) have "last (rev (take k (rev s))) = last s"
      by (cases s rule: rev_cases) simp_all
    with assms(4,5) spaceRunes_printable show ?thesis
      by metis
  qed
  have "leadingSpace s = 0"
    unfolding leadingSpace_def using front [of 1] front [of 2] front [of 3] by presburger
  then have "TrimLeftSpace s = s"
    by (simp add: TrimLeftSpace.simps)
  moreover have "trailingSpace s = 0"
    unfolding trailingSpace_def using behind [of 1] behind [of 2] behind [of 3] by presburger
  then have "TrimRightSpace s = s"
    by (simp add: TrimRightSpace.simps)
  ultimately show ?thesis
    by (simp add: TrimSpace_def)
qed

lemma parseArchivedValue_digits:
  assumes p: "p \<in> {[], ''ts'', ''tS'', ''Ts'', ''TS''}"
    and ds: "ds \<noteq> []" "list_all isDigit ds" "digitsValue 0 ds \<le> maxInt64"
  shows "parseArchivedValue pf \<lparr>NS_String = p @ ds, NS_Valid = True\<rparr> = Some (digitsValue 0 ds)"
proof -
  from ds obtain c cs where c: "ds = c # cs" "isDigit c"
    by (cases ds) simp_all
  have l: "isDigit (last ds)"
    using ds by (cases ds rule: rev_cases) simp_all
  have t: "(of_char CHR ''t'' :: nat) = 116" "(of_char CHR ''T'' :: nat) = 84"
    by simp_all
  have "33 \<le> (of_char (hd (p @ ds)) :: nat) \<and> (of_char (hd (p @ ds)) :: nat) \<le> 126"
    using p c isDigit_range [of c] by auto
  moreover have "33 \<le> (of_char (last (p @ ds)) :: nat) \<and> (of_char (last (p @ ds)) :: nat) \<le> 126"
    using ds(1) l isDigit_range [of "last ds"] by simp
  ultimately have trim: "TrimSpace (p @ ds) = p @ ds"
    using ds(1) by (intro TrimSpace_printable) simp_all
  have nt: "c \<noteq> CHR ''t''" "c \<noteq> CHR ''T''"
    using isDigit_range [OF c(2)] by auto
  have parse: "ParseInt ds = Some (digitsValue 0 ds)"
    using ds by (rule ParseInt_digits)
  from p show ?thesis
    unfolding parseArchivedValue_reading
    using trim ds(1) parse c(1) nt by (auto simp: Let_def)
qed

lemma parseArchivedValue_other:
  assumes "NS_Valid v" and s: "s = TrimSpace (NS_String v)" and "s \<noteq> []"
    and "\<not> isDigit (hd s)" and "hd s \<notin> {CHR ''+'', CHR ''-'', CHR ''t'', CHR ''T''}"
  shows "parseArchivedValue pf v = pf s"
proof -
  from assms(3,4) have "\<not> list_all isDigit s"
    by (cases s) simp_all
  with assms(3,5) have none: "ParseInt s = None"
    by (simp add: ParseInt_unsigned)
  have prefix: "\<not> HasPrefix (ToLower s) ''ts''"
    unfolding HasPrefix_ts using assms(5) by auto
  show ?thesis
    unfolding parseArchivedValue_def Let_def s [symmetric]
    using assms(1,3) none prefix by (simp split: option.splits)
qed

text \<open>
  C1, as the code has it.  The archived state of a thread row follows three rules, the
  first applicable one winning.  (1) When the ordering-sequence marker parses to a number
  \<open>m\<close> and the latest order is known, the thread is archived iff the latest order is at
  most \<open>m\<close>.  (2) Otherwise, when the archived-through marker parses to a number \<open>n\<close>:
  for \<open>n\<close> above 1000000000000 the thread is archived iff the last-message timestamp is
  unknown or at most \<open>n\<close>, and for smaller \<open>n\<close> iff the latest order is unknown or at
  most \<open>n\<close>.  (3) Otherwise the thread is archived iff the raw archived-through field is
  present and not blank.

  A marker parses to a number as follows.  It is present; its surrounding white space is
  removed, then a leading \<open>ts\<close> in either letter case, and no other prefix; what is left
  is not empty and is read by \<^verbatim>\<open>strconv.ParseInt\<close> or, failing that, by
  \<^verbatim>\<open>strconv.ParseFloat\<close>.  So a string of digits, with or without a leading \<open>ts\<close>,
  parses to the number it writes; and a marker that starts with anything else than a
  digit, a sign or the letter \<open>t\<close> parses only if \<^verbatim>\<open>strconv.ParseFloat\<close> reads the
  whole of it.
\<close>

theorem computeArchived_priority:
  "(\<forall>v. parseArchivedValue pf v =
       (if \<not> NS_Valid v then None
        else let s = TrimSpace (NS_String v);
                 rest = (if \<exists>c d r. s = c # d # r \<and> (c = CHR ''t'' \<or> c = CHR ''T'')
                                     \<and> (d = CHR ''s'' \<or> d = CHR ''S'')
                         then drop 2 s else s)
             in if rest = [] then None
                else (case ParseInt rest of Some n \<Rightarrow> Some n | None \<Rightarrow> pf rest)))
   \<and> (\<forall>p ds. p \<in> {[], ''ts'', ''tS'', ''Ts'', ''TS''} \<and> ds \<noteq> [] \<and> list_all isDigit ds
               \<and> digitsValue 0 ds \<le> maxInt64 \<longrightarrow>
        parseArchivedValue pf \<lparr>NS_String = p @ ds, NS_Valid = True\<rparr> = Some (digitsValue 0 ds))
   \<and> (\<forall>v s. NS_Valid v \<and> s = TrimSpace (NS_String v) \<and> s \<noteq> [] \<and> \<not> isDigit (hd s)
              \<and> hd s \<notin> {CHR ''+'', CHR ''-'', CHR ''t'', CHR ''T''} \<longrightarrow>
        parseArchivedValue pf v = pf s)
   \<and> (\<forall>m. parseArchivedValue pf auo = Some m \<and> NI_Valid lho \<longrightarrow>
        computeArchived pf au auo lho lm = (NI_Int64 lho \<le> m))
   \<and> (\<forall>n. \<not> (parseArchivedValue pf auo \<noteq> None \<and> NI_Valid lho) \<and>
          parseArchivedValue pf au = Some n \<longrightarrow>
        computeArchived pf au auo lho lm =
          (if n > 1000000000000 then (\<not> NI_Valid lm \<or> NI_Int64 lm \<le> n)
           else (\<not> NI_Valid lho \<or> NI_Int64 lho \<le> n)))
   \<and> (\<not> (parseArchivedValue pf auo \<noteq> None \<and> NI_Valid lho) \<and>
        parseArchivedValue pf au = None \<longrightarrow>
        computeArchived pf au auo lho lm =
          (NS_Valid au \<and> TrimSpace (NS_String au) \<noteq> []))"
proof -
  have rules:
    "(\<forall>m. parseArchivedValue pf auo = Some m \<and> NI_Valid lho \<longrightarrow>
        computeArchived pf au auo lho lm = (NI_Int64 lho \<le> m))
   \<and> (\<forall>n. \<not> (parseArchivedValue pf auo \<noteq> None \<and> NI_Valid lho) \<and>
          parseArchivedValue pf au = Some n \<longrightarrow>
        computeArchived pf au auo lho lm =
          (if n > 1000000000000 then (\<not> NI_Valid lm \<or> NI_Int64 lm \<le> n)
           else (\<not> NI_Valid lho \<or> NI_Int64 lho \<le> n)))
   \<and> (\<not> (parseArchivedValue pf auo \<noteq> None \<and> NI_Valid lho) \<and>
        parseArchivedValue pf au = None \<longrightarrow>
        computeArchived pf au auo lho lm =
          (NS_Valid au \<and> TrimSpace (NS_String au) \<noteq> []))"
    by (auto simp: computeArchived_def Let_def split: option.splits)
  have reading: "\<forall>v. parseArchivedValue pf v =
       (if \<not> NS_Valid v then None
        else let s = TrimSpace (NS_String v);
                 rest = (if \<exists>c d r. s = c # d # r \<and> (c = CHR ''t'' \<or> c = CHR ''T'')
                                     \<and> (d = CHR ''s'' \<or> d = CHR ''S'')
                         then drop 2 s else s)
             in if rest = [] then None
                else (case ParseInt rest of Some n \<Rightarrow> Some n | None \<Rightarrow> pf rest))"
    using parseArchivedValue_reading by blast
  have digits: "\<forall>p ds. p \<in> {[], ''ts'', ''tS'', ''Ts'', ''TS''} \<and> ds \<noteq> [] \<and> list_all isDigit ds
               \<and> digitsValue 0 ds \<le> maxInt64 \<longrightarrow>
        parseArchivedValue pf \<lparr>NS_String = p @ ds, NS_Valid = True\<rparr> = Some (digitsValue 0 ds)"
    using parseArchivedValue_digits by blast
  have other: "\<forall>v s. NS_Valid v \<and> s = TrimSpace (NS_String v) \<and> s \<noteq> [] \<and> \<not> isDigit (hd s)
              \<and> hd s \<notin> {CHR ''+'', CHR ''-'', CHR ''t'', CHR ''T''} \<longrightarrow>
        parseArchivedValue pf v = pf s"
    using parseArchivedValue_other by blast
  from reading digits other rules show ?thesis
    by (intro conjI) (blast+)
qed

text \<open>
  The rules at concrete rows, \<^verbatim>\<open>strconv.ParseFloat\<close> reading none of the markers:
  the order marker \<open>7\<close> against the latest order 5; the marker \<open>TS1700000000000\<close>,
  which parses to 1700000000000, against a later last message; and the marker
  \<open>upto1700000000000\<close>, which does not parse and is not blank.
\<close>

theorem computeArchived_priority_witness:
  "computeArchived (\<lambda>s. None)
      \<lparr>NS_String = ''ts1700000000000'', NS_Valid = True\<rparr> \<lparr>NS_String = ''7'', NS_Valid = True\<rparr>
      \<lparr>NI_Int64 = 5, NI_Valid = True\<rparr> \<lparr>NI_Int64 = 0, NI_Valid = False\<rparr>
   \<and> parseArchivedValue (\<lambda>s. None) \<lparr>NS_String = ''TS1700000000000'', NS_Valid = True\<rparr>
       = Some 1700000000000
   \<and> \<not> computeArchived (\<lambda>s. None)
      \<lparr>NS_String = ''TS1700000000000'', NS_Valid = True\<rparr> \<lparr>NS_String = [], NS_Valid = False\<rparr>
      \<lparr>NI_Int64 = 5, NI_Valid = True\<rparr> \<lparr>NI_Int64 = 1800000000000, NI_Valid = True\<rparr>
   \<and> parseArchivedValue (\<lambda>s. None) \<lparr>NS_String = ''upto1700000000000'', NS_Valid = True\<rparr>
       = None
   \<and> computeArchived (\<lambda>s. None)
      \<lparr>NS_String = ''upto1700000000000'', NS_Valid = True\<rparr> \<lparr>NS_String = [], NS_Valid = False\<rparr>
      \<lparr>NI_Int64 = 5, NI_Valid = True\<rparr> \<lparr>NI_Int64 = 1800000000000, NI_Valid = True\<rparr>"
proof -
  have d1: "list_all isDigit ''1700000000000''"
    by code_simp
  have d2: "digitsValue 0 ''1700000000000'' = 1700000000000"
    by simp
  have d3: "list_all isDigit ''7''"
    by code_simp
  have d4: "digitsValue 0 ''7'' = 7"
    by simp
  have u1: "TrimSpace ''upto1700000000000'' = ''upto1700000000000''"
    by code_simp
  have u2: "\<not> isDigit CHR ''u''"
    by code_simp
  note rule1 =
    computeArchived_priority
      [of "\<lambda>s. None" "\<lparr>NS_String = ''7'', NS_Valid = True\<rparr>"
          "\<lparr>NI_Int64 = 5, NI_Valid = True\<rparr>"
          "\<lparr>NS_String = ''ts1700000000000'', NS_Valid = True\<rparr>"
          "\<lparr>NI_Int64 = 0, NI_Valid = False\<rparr>"]
  note rule2 =
    computeArchived_priority
      [of "\<lambda>s. None" "\<lparr>NS_String = [], NS_Valid = False\<rparr>"
          "\<lparr>NI_Int64 = 5, NI_Valid = True\<rparr>"
          "\<lparr>NS_String = ''TS1700000000000'', NS_Valid = True\<rparr>"
          "\<lparr>NI_Int64 = 1800000000000, NI_Valid = True\<rparr>"]
  note rule3 =
    computeArchived_priority
      [of "\<lambda>s. None" "\<lparr>NS_String = [], NS_Valid = False\<rparr>"
          "\<lparr>NI_Int64 = 5, NI_Valid = True\<rparr>"
          "\<lparr>NS_String = ''upto1700000000000'', NS_Valid = True\<rparr>"
          "\<lparr>NI_Int64 = 1800000000000, NI_Valid = True\<rparr>"]
  from rule1 have digits: "\<And>p ds. p \<in> {[], ''ts'', ''tS'', ''Ts'', ''TS''} \<Longrightarrow> ds \<noteq> [] \<Longrightarrow>
      list_all isDigit ds \<Longrightarrow> digitsValue 0 ds \<le> maxInt64 \<Longrightarrow>
      parseArchivedValue (\<lambda>s. None) \<lparr>NS_String = p @ ds, NS_Valid = True\<rparr>
        = Some (digitsValue 0 ds)"
    by blast
  from rule1 have other: "\<And>v s. NS_Valid v \<Longrightarrow> s = TrimSpace (NS_String v) \<Longrightarrow> s \<noteq> [] \<Longrightarrow>
      \<not> isDigit (hd s) \<Longrightarrow> hd s \<notin> {CHR ''+'', CHR ''-'', CHR ''t'', CHR ''T''} \<Longrightarrow>
      parseArchivedValue (\<lambda>s. None) v = None"
    by blast
  from rule1 have absent: "\<And>v. \<not> NS_Valid v \<Longrightarrow> parseArchivedValue (\<lambda>s. None) v = None"
    by metis
  have p1: "parseArchivedValue (\<lambda>s. None) \<lparr>NS_String = ''7'', NS_Valid = True\<rparr> = Some 7"
    using digits [of "[]" "''7''"] d3 d4 by (simp add: maxInt64_def)
  have p2: "parseArchivedValue (\<lambda>s. None) \<lparr>NS_String = ''TS1700000000000'', NS_Valid = True\<rparr>
              = Some 1700000000000"
    using digits [of "''TS''" "''1700000000000''"] d1 d2 by (simp add: maxInt64_def)
  have p3: "parseArchivedValue (\<lambda>s. None) \<lparr>NS_String = [], NS_Valid = False\<rparr> = None"
    using absent by simp
  have p4: "parseArchivedValue (\<lambda>s. None) \<lparr>NS_String = ''upto1700000000000'', NS_Valid = True\<rparr>
              = None"
    using other [of "\<lparr>NS_String = ''upto1700000000000'', NS_Valid = True\<rparr>"
                    "''upto1700000000000''"] u1 u2
    by simp
  have r1: "computeArchived (\<lambda>s. None)
      \<lparr>NS_String = ''ts1700000000000'', NS_Valid = True\<rparr> \<lparr>NS_String = ''7'', NS_Valid = True\<rparr>
      \<lparr>NI_Int64 = 5, NI_Valid = True\<rparr> \<lparr>NI_Int64 = 0, NI_Valid = False\<rparr>"
    using rule1 p1 by simp
  have r2: "\<not> computeArchived (\<lambda>s. None)
      \<lparr>NS_String = ''TS1700000000000'', NS_Valid = True\<rparr> \<lparr>NS_String = [], NS_Valid = False\<rparr>
      \<lparr>NI_Int64 = 5, NI_Valid = True\<rparr> \<lparr>NI_Int64 = 1800000000000, NI_Valid = True\<rparr>"
    using rule2 p2 p3 by simp
  have r3: "computeArchived (\<lambda>s. None)
      \<lparr>NS_String = ''upto1700000000000'', NS_Valid = True\<rparr> \<lparr>NS_String = [], NS_Valid = False\<rparr>
      \<lparr>NI_Int64 = 5, NI_Valid = True\<rparr> \<lparr>NI_Int64 = 1800000000000, NI_Valid = True\<rparr>"
    using rule3 p3 p4 u1 by simp
  from r1 p2 r2 p4 r3 show ?thesis
    by (intro conjI)
qed

text \<open>
  C1 as the specification words it fails at the marker \<open>upto1700000000000\<close> of a thread
  whose last message is at 1800000000000.  Stripped of its non-numeric prefix the marker
  is 1700000000000, a millisecond timestamp before the last message, and rule (2) says
  the thread is not archived; \<^verbatim>\<open>computeArchived\<close> strips no such prefix, does not
  parse the marker and, by rule (3), says the thread is archived.
\<close>

theorem computeArchived_priority_counterexample:
  "computeArchived (\<lambda>s. None)
      \<lparr>NS_String = ''upto1700000000000'', NS_Valid = True\<rparr> \<lparr>NS_String = [], NS_Valid = False\<rparr>
      \<lparr>NI_Int64 = 5, NI_Valid = True\<rparr> \<lparr>NI_Int64 = 1800000000000, NI_Valid = True\<rparr>
   \<and> \<not> specArchived (\<lambda>s. None)
      \<lparr>NS_String = ''upto1700000000000'', NS_Valid = True\<rparr> \<lparr>NS_String = [], NS_Valid = False\<rparr>
      \<lparr>NI_Int64 = 5, NI_Valid = True\<rparr> \<lparr>NI_Int64 = 1800000000000, NI_Valid = True\<rparr>"
proof -
  have code: "computeArchived (\<lambda>s. None)
      \<lparr>NS_String = ''upto1700000000000'', NS_Valid = True\<rparr> \<lparr>NS_String = [], NS_Valid = False\<rparr>
      \<lparr>NI_Int64 = 5, NI_Valid = True\<rparr> \<lparr>NI_Int64 = 1800000000000, NI_Valid = True\<rparr>"
    by code_simp
  have spec: "\<not> specArchived (\<lambda>s. None)
      \<lparr>NS_String = ''upto1700000000000'', NS_Valid = True\<rparr> \<lparr>NS_String = [], NS_Valid = False\<rparr>
      \<lparr>NI_Int64 = 5, NI_Valid = True\<rparr> \<lparr>NI_Int64 = 1800000000000, NI_Valid = True\<rparr>"
    by code_simp
  from code spec show ?thesis
    by (rule conjI)
qed

text \<open>
  C2. For a thread that passes the low-priority gate: a thread tagged favourite is
  included under the inbox label whatever its archived state and never under the archive
  label; a thread without the tag is in the inbox iff it is not archived and in the archive
  iff it is archived.  Hence every thread the favourite label includes is included under
  inbox, and no thread is included under both archive and favourite.
\<close>

theorem shouldIncludeThread_labels:
  assumes gate: "includeLowPriority \<or> \<not> IsLowPriority thread"
  shows "(containsTag (Tags thread) ''favourite'' \<longrightarrow>
            shouldIncludeThread LabelInbox thread archived includeLowPriority \<and>
            \<not> shouldIncludeThread LabelArchive thread archived includeLowPriority)
       \<and> (\<not> containsTag (Tags thread) ''favourite'' \<longrightarrow>
            shouldIncludeThread LabelInbox thread archived includeLowPriority = (\<not> archived) \<and>
            shouldIncludeThread LabelArchive thread archived includeLowPriority = archived)
       \<and> (shouldIncludeThread LabelFavourite thread archived' includeLowPriority \<longrightarrow>
            shouldIncludeThread LabelInbox thread archived includeLowPriority)
       \<and> \<not> (shouldIncludeThread LabelArchive thread archived includeLowPriority \<and>
            shouldIncludeThread LabelFavourite thread archived' includeLowPriority)"
  using gate
  by (auto simp: shouldIncludeThread_def LabelInbox_def LabelArchive_def LabelFavourite_def)

text \<open>
  An archived thread tagged \<open>Favourite\<close> (the tag is compared ignoring case) and an
  archived thread with another tag.
\<close>

theorem shouldIncludeThread_labels_witness:
  "shouldIncludeThread LabelInbox (emptyThread\<lparr>Tags := [''Favourite'']\<rparr>) True False
   \<and> \<not> shouldIncludeThread LabelArchive (emptyThread\<lparr>Tags := [''Favourite'']\<rparr>) True False
   \<and> \<not> shouldIncludeThread LabelInbox (emptyThread\<lparr>Tags := [''work'']\<rparr>) True False
   \<and> shouldIncludeThread LabelArchive (emptyThread\<lparr>Tags := [''work'']\<rparr>) True False"
proof -
  have t1: "containsTag (Tags (emptyThread\<lparr>Tags := [''Favourite'']\<rparr>)) ''favourite''"
    by code_simp
  have t2: "\<not> containsTag (Tags (emptyThread\<lparr>Tags := [''work'']\<rparr>)) ''favourite''"
    by code_simp
  have g1: "False \<or> \<not> IsLowPriority (emptyThread\<lparr>Tags := [''Favourite'']\<rparr>)"
    by (simp add: emptyThread_def)
  have g2: "False \<or> \<not> IsLowPriority (emptyThread\<lparr>Tags := [''work'']\<rparr>)"
    by (simp add: emptyThread_def)
  show ?thesis
    using shouldIncludeThread_labels [OF g1, of True] shouldIncludeThread_labels [OF g2, of True]
          t1 t2
    by simp
qed

section \<open>Properties of the text renderer\<close>

lemma spaceRunes_nonempty: "[] \<notin> set spaceRunes"
  by (simp add: spaceRunes_def)

lemma spaceRunes_hd: "r \<in> set spaceRunes \<Longrightarrow> hd r \<noteq> CHR ''[''"
  by (auto simp: spaceRunes_def)

lemma spaceRunes_last: "r \<in> set spaceRunes \<Longrightarrow> last r \<noteq> CHR '']''"
  by (auto simp: spaceRunes_def)

lemma leadingSpace_bracket: "leadingSpace (CHR ''['' # s) = 0"
proof -
  have no: "take k (CHR ''['' # s) \<notin> set spaceRunes" for k
  proof (cases k)
    case 0
    then show ?thesis by (simp add: spaceRunes_nonempty)
  next
    case (Suc j)
    then have "hd (take k (CHR ''['' # s)) = CHR ''[''" by simp
    then show ?thesis using spaceRunes_hd by blast
  qed
  show ?thesis
    unfolding leadingSpace_def using no [of 1] no [of 2] no [of 3] by presburger
qed

lemma trailingSpace_bracket: "trailingSpace (s @ '']'') = 0"
proof -
  have no: "rev (take k (rev (s @ '']''))) \<notin> set spaceRunes" for k
  proof (cases k)
    case 0
    then show ?thesis by (simp add: spaceRunes_nonempty)
  next
    case (Suc j)
    then have "last (rev (take k (rev (s @ '']'')))) = CHR '']''" by simp
    then show ?thesis using spaceRunes_last by blast
  qed
  show ?thesis
    unfolding trailingSpace_def using no [of 1] no [of 2] no [of 3] by presburger
qed

text \<open>A placeholder in brackets is never blank: \<^verbatim>\<open>TrimSpace\<close> leaves it as it is.\<close>

lemma TrimSpace_bracketed: "TrimSpace (''['' @ s @ '']'') = ''['' @ s @ '']''"
proof -
  have "TrimLeftSpace (''['' @ s @ '']'') = ''['' @ s @ '']''"
    using leadingSpace_bracket [of "s @ '']''"] by (simp add: TrimLeftSpace.simps)
  moreover have "TrimRightSpace ((''['' @ s) @ '']'') = (''['' @ s) @ '']''"
    using trailingSpace_bracket [of "''['' @ s"] TrimRightSpace.simps [of "(''['' @ s) @ '']''"]
    by presburger
  ultimately show ?thesis by (simp add: TrimSpace_def)
qed

text \<open>For the type TEXT (an empty type tag counts as TEXT) the extraction ignores the mode.\<close>

lemma renderPayload_TEXT:
  "renderPayload payload ''TEXT'' rich = firstString payload [''body'', ''text'']"
  by (simp add: renderPayload_def)

lemma fallbackMessageText_TEXT: "fallbackMessageText v ''TEXT'' rich = v"
  by (simp add: fallbackMessageText_def)

lemma extractMessageText_TEXT:
  assumes "ToUpper (TrimSpace msgType) = ''TEXT'' \<or> ToUpper (TrimSpace msgType) = []"
  shows "extractMessageText u raw msgType True = extractMessageText u raw msgType False"
proof -
  have "extractMessageText u raw msgType rich =
          (if TrimSpace raw = [] then []
           else (case u raw of
                   None \<Rightarrow> raw
                 | Some (JObject payload) \<Rightarrow> firstString payload [''body'', ''text'']
                 | Some (JString s) \<Rightarrow> s
                 | Some other \<Rightarrow> raw))" for rich
  proof (cases "u raw")
    case None
    with assms show ?thesis
      by (auto simp add: extractMessageText_def fallbackMessageText_TEXT)
  next
    case (Some v)
    with assms show ?thesis
      by (cases v)
         (auto simp add: extractMessageText_def fallbackMessageText_TEXT renderPayload_TEXT)
  qed
  then show ?thesis by simp
qed

text \<open>
  C6, as the code has it.  For a message of type TEXT the text extracted from the payload
  is the same in both modes.  Rich mode returns the extracted text when it is not blank and
  the pre-rendered field otherwise; plain mode returns the pre-rendered field when it is not
  blank and the extracted text otherwise.  So the two renderings are the same string
  exactly when the extracted text equals the pre-rendered field or exactly one of the two
  is blank.
\<close>

theorem ResolveMessageText_TEXT:
  assumes ty: "ToUpper (TrimSpace msgType) = ''TEXT'' \<or> ToUpper (TrimSpace msgType) = []"
    and rich: "format \<noteq> FormatPlain"
  shows "extractMessageText u raw msgType True = extractMessageText u raw msgType False
    \<and> ResolveMessageText u raw msgType textContent format =
           (if TrimSpace (extractMessageText u raw msgType False) \<noteq> []
            then extractMessageText u raw msgType False else textContent)
    \<and> ResolveMessageText u raw msgType textContent FormatPlain =
           (if TrimSpace textContent \<noteq> [] then textContent
            else extractMessageText u raw msgType False)
    \<and> ((ResolveMessageText u raw msgType textContent format =
          ResolveMessageText u raw msgType textContent FormatPlain)
         = (extractMessageText u raw msgType False = textContent \<or>
            (TrimSpace textContent = []) \<noteq>
            (TrimSpace (extractMessageText u raw msgType False) = [])))"
proof -
  have e: "extractMessageText u raw msgType True = extractMessageText u raw msgType False"
    using ty by (rule extractMessageText_TEXT)
  have r: "ResolveMessageText u raw msgType textContent format =
           (if TrimSpace (extractMessageText u raw msgType False) \<noteq> []
            then extractMessageText u raw msgType False else textContent)"
    using rich by (simp add: ResolveMessageText_def e Let_def)
  have p: "ResolveMessageText u raw msgType textContent FormatPlain =
           (if TrimSpace textContent \<noteq> [] then textContent
            else extractMessageText u raw msgType False)"
    by (simp add: ResolveMessageText_def)
  have "(ResolveMessageText u raw msgType textContent format =
          ResolveMessageText u raw msgType textContent FormatPlain)
         = (extractMessageText u raw msgType False = textContent \<or>
            (TrimSpace textContent = []) \<noteq>
            (TrimSpace (extractMessageText u raw msgType False) = []))"
    unfolding r p by auto
  with e r p show ?thesis by blast
qed

text \<open>A text message whose pre-rendered field is empty: both modes give the payload's text.\<close>

theorem ResolveMessageText_TEXT_witness:
  \<open>ResolveMessageText exampleUnmarshal ''{"text":" hello"}'' ''text'' [] FormatRich =
     ResolveMessageText exampleUnmarshal ''{"text":" hello"}'' ''text'' [] FormatPlain\<close>
proof -
  have ty: "ToUpper (TrimSpace ''text'') = ''TEXT'' \<or> ToUpper (TrimSpace ''text'') = []"
    by code_simp
  have rich: "FormatRich \<noteq> FormatPlain"
    by (simp add: FormatRich_def FormatPlain_def)
  have e: \<open>extractMessageText exampleUnmarshal ''{"text":" hello"}'' ''text'' False = ''hello''\<close>
    by code_simp
  have b1: "TrimSpace [] = []"
    by code_simp
  have b2: "TrimSpace ''hello'' = ''hello''"
    by code_simp
  show ?thesis
    using ResolveMessageText_TEXT [OF ty rich, of exampleUnmarshal \<open>''{"text":" hello"}''\<close> "[]"]
    by (simp only: e b1 b2) simp
qed

text \<open>
  The claim as stated fails: the payload \<^verbatim>\<open>{"text":" hello"}\<close> with the pre-rendered
  field \<^verbatim>\<open>" hello"\<close> renders as \<^verbatim>\<open>"hello"\<close> in rich mode (the payload's text,
  trimmed) and as \<^verbatim>\<open>" hello"\<close> in plain mode (the pre-rendered field).
\<close>

theorem ResolveMessageText_TEXT_counterexample:
  \<open>ResolveMessageText exampleUnmarshal ''{"text":" hello"}'' ''TEXT'' '' hello'' FormatRich
     \<noteq> ResolveMessageText exampleUnmarshal ''{"text":" hello"}'' ''TEXT'' '' hello'' FormatPlain\<close>
proof -
  have r: \<open>ResolveMessageText exampleUnmarshal ''{"text":" hello"}'' ''TEXT'' '' hello'' FormatRich
             = ''hello''\<close>
    by code_simp
  have p: \<open>ResolveMessageText exampleUnmarshal ''{"text":" hello"}'' ''TEXT'' '' hello'' FormatPlain
             = '' hello''\<close>
    by code_simp
  show ?thesis
    unfolding r p by simp
qed

text \<open>
  C9. For a payload that decodes to an object and a type tag that reads FILE, write
  \<open>filename\<close> for the trimmed string under the key \<^verbatim>\<open>filename\<close> (else \<^verbatim>\<open>name\<close>)
  and \<open>url\<close> for the one under \<^verbatim>\<open>url\<close>; a missing one is the empty string.  Rich
  rendering gives \<^verbatim>\<open>[File: <filename> - <url>]\<close> when both are there,
  \<^verbatim>\<open>[File: <filename>]\<close> or \<^verbatim>\<open>[File: <url>]\<close> when one is, and \<^verbatim>\<open>[File]\<close> when
  none is, both from \<^verbatim>\<open>renderPayload\<close> and from \<^verbatim>\<open>ResolveMessageText\<close>.  Plain
  rendering of the same payload with an empty pre-rendered field and neither a
  \<^verbatim>\<open>body\<close> nor a \<^verbatim>\<open>text\<close> key gives the empty string.
\<close>

theorem ResolveMessageText_FILE:
  assumes ty: "ToUpper (TrimSpace msgType) = ''FILE''"
    and obj: "unmarshal raw = Some (JObject payload)"
    and raw: "TrimSpace raw \<noteq> []"
    and rich: "format \<noteq> FormatPlain"
  shows "(let filename = firstString payload [''filename'', ''name''];
              url = firstString payload [''url''];
              placeholder =
                (if filename \<noteq> [] \<and> url \<noteq> [] then ''[File: '' @ filename @ '' - '' @ url @ '']''
                 else if filename \<noteq> [] then ''[File: '' @ filename @ '']''
                 else if url \<noteq> [] then ''[File: '' @ url @ '']''
                 else ''[File]'')
          in renderPayload payload ''FILE'' True = placeholder
           \<and> ResolveMessageText unmarshal raw msgType textContent format = placeholder)
       \<and> (map_of payload ''body'' = None \<and> map_of payload ''text'' = None \<longrightarrow>
            ResolveMessageText unmarshal raw msgType [] FormatPlain = [])"
proof -
  define filename where "filename = firstString payload [''filename'', ''name'']"
  define url where "url = firstString payload [''url'']"
  define placeholder where "placeholder =
     (if filename \<noteq> [] \<and> url \<noteq> [] then ''[File: '' @ filename @ '' - '' @ url @ '']''
      else if filename \<noteq> [] then ''[File: '' @ filename @ '']''
      else if url \<noteq> [] then ''[File: '' @ url @ '']''
      else ''[File]'')"
  have rp: "renderPayload payload ''FILE'' True = placeholder"
    by (simp add: renderPayload_def Let_def placeholder_def filename_def url_def)
  have ex: "extractMessageText unmarshal raw msgType r = renderPayload payload ''FILE'' r" for r
    using ty obj raw by (simp add: extractMessageText_def)
  have "\<exists>s. placeholder = ''['' @ s @ '']''"
    by (auto simp: placeholder_def)
  then have nb: "TrimSpace placeholder \<noteq> []"
    using TrimSpace_bracketed by auto
  have rr: "ResolveMessageText unmarshal raw msgType textContent format = placeholder"
    using rich nb by (simp add: ResolveMessageText_def ex rp Let_def)
  have blank: "TrimSpace [] = []"
    by (simp add: TrimSpace_def TrimLeftSpace.simps TrimRightSpace.simps
          leadingSpace_def trailingSpace_def spaceRunes_def)
  have pl: "ResolveMessageText unmarshal raw msgType [] FormatPlain = []"
    if "map_of payload ''body'' = None" "map_of payload ''text'' = None"
    using that by (simp add: ResolveMessageText_def ex renderPayload_def blank)
  from rp rr pl show ?thesis
    by (simp add: Let_def placeholder_def filename_def url_def)
qed

text \<open>The payload of the repository's own test: a file name and a URL, no text.\<close>

theorem ResolveMessageText_FILE_witness:
  \<open>ResolveMessageText exampleUnmarshal
      ''{"url":"https://example.com/file.pdf","filename":"report.pdf"}'' ''FILE'' [] FormatRich
     = ''[File: report.pdf - https://example.com/file.pdf]''
   \<and> ResolveMessageText exampleUnmarshal
      ''{"url":"https://example.com/file.pdf","filename":"report.pdf"}'' ''FILE'' [] FormatPlain
     = []\<close>
proof -
  let ?raw = \<open>''{"url":"https://example.com/file.pdf","filename":"report.pdf"}''\<close>
  let ?payload = "[(''url'', JString ''https://example.com/file.pdf''),
                   (''filename'', JString ''report.pdf'')]"
  have ty: "ToUpper (TrimSpace ''FILE'') = ''FILE''"
    by code_simp
  have obj: "exampleUnmarshal ?raw = Some (JObject ?payload)"
    by code_simp
  have raw: "TrimSpace ?raw \<noteq> []"
    by code_simp
  have rich: "FormatRich \<noteq> FormatPlain"
    by (simp add: FormatRich_def FormatPlain_def)
  have f: "firstString ?payload [''filename'', ''name''] = ''report.pdf''"
    by code_simp
  have u: "firstString ?payload [''url''] = ''https://example.com/file.pdf''"
    by code_simp
  have k: "map_of ?payload ''body'' = None" "map_of ?payload ''text'' = None"
    by simp_all
  show ?thesis
    using ResolveMessageText_FILE
            [where msgType = "''FILE''" and unmarshal = exampleUnmarshal and raw = ?raw
               and payload = ?payload and format = FormatRich and textContent = "[]",
             OF ty obj raw rich] k
    by (simp only: f u Let_def) simp
qed

section \<open>Properties of the name resolver\<close>

lemma queryBridgeName_ok:
  "queryBridgeName files path roomID = Inr (name, ok) \<Longrightarrow> ok = (name \<noteq> [])"
  by (auto simp: queryBridgeName_def Let_def split: sum.splits option.splits if_splits)

lemma rangePlatformDBs_name:
  "rangePlatformDBs files dbs roomID = (Inr (Some name), opened) \<Longrightarrow> name \<noteq> []"
proof (induction dbs arbitrary: opened)
  case Nil
  then show ?case by simp
next
  case (Cons d dbs)
  obtain platform path where d: "d = (platform, path)"
    by (cases d)
  show ?case
  proof (cases "queryBridgeName files path roomID")
    case (Inl err)
    with Cons.prems d show ?thesis by simp
  next
    case (Inr r)
    obtain n ok where r: "r = (n, ok)"
      by (cases r)
    show ?thesis
    proof (cases ok)
      case True
      with Cons.prems d Inr r queryBridgeName_ok [of files path roomID n ok]
      show ?thesis by simp
    next
      case False
      with Cons.prems d Inr r Cons.IH show ?thesis
        by (auto split: prod.splits)
    qed
  qed
qed

lemma rangePlatformDBs_opened:
  "dbs \<noteq> [] \<Longrightarrow> snd (rangePlatformDBs files dbs roomID) \<noteq> []"
  by (cases dbs) (auto split: sum.splits prod.splits if_splits)

lemma LookupDMName_cached:
  assumes "platformDBs bl \<noteq> []" and "cache bl roomID = Some cached"
  shows "LookupDMName files (Some bl) roomID accountID =
           (if cached = [] then Inr ([], False) else Inr (cached, True), Some bl, [])"
  using assms by (simp add: LookupDMName_def)

lemma LookupDMName_fresh:
  assumes dbs: "platformDBs bl \<noteq> []" and fresh: "cache bl roomID = None"
    and res: "LookupDMName files (Some bl) roomID accountID = (Inr (name, ok), b', opened)"
  shows "b' = Some (bl\<lparr>cache := (cache bl)(roomID \<mapsto> name)\<rparr>) \<and> opened \<noteq> [] \<and> ok = (name \<noteq> [])"
proof -
  define candidate where "candidate =
     (if accountID \<noteq> [] then
        (case map_of (platformDBs bl) (normalizePlatform accountID) of
           Some path \<Rightarrow> path | None \<Rightarrow> [])
      else [])"
  show ?thesis
  proof (cases "candidate \<noteq> []")
    case True
    have "LookupDMName files (Some bl) roomID accountID =
        (case queryBridgeName files candidate roomID of
           Inl err \<Rightarrow> (Inl err, Some bl, [candidate])
         | Inr (n, k) \<Rightarrow>
             (Inr (n, k), Some (bl\<lparr>cache := (cache bl)(roomID \<mapsto> n)\<rparr>), [candidate]))"
      apply (simp only: LookupDMName_def Let_def option.case)
      apply (fold candidate_def)
      apply (simp add: dbs fresh True)
      done
    with res show ?thesis
      by (auto split: sum.splits prod.splits dest: queryBridgeName_ok)
  next
    case False
    have eq: "LookupDMName files (Some bl) roomID accountID =
        (case rangePlatformDBs files (platformDBs bl) roomID of
           (Inl err, opened) \<Rightarrow> (Inl err, Some bl, opened)
         | (Inr (Some n), opened) \<Rightarrow>
             (Inr (n, True), Some (bl\<lparr>cache := (cache bl)(roomID \<mapsto> n)\<rparr>), opened)
         | (Inr None, opened) \<Rightarrow>
             (Inr ([], False), Some (bl\<lparr>cache := (cache bl)(roomID \<mapsto> [])\<rparr>), opened))"
      apply (simp only: LookupDMName_def Let_def option.case)
      apply (fold candidate_def)
      apply (simp add: dbs fresh False)
      done
    obtain r op where rp: "rangePlatformDBs files (platformDBs bl) roomID = (r, op)"
      by (cases "rangePlatformDBs files (platformDBs bl) roomID")
    from rangePlatformDBs_opened [OF dbs, of files roomID] rp have op: "op \<noteq> []"
      by simp
    from res eq rp op show ?thesis
      by (auto split: sum.splits option.splits dest: rangePlatformDBs_name)
  qed
qed

text \<open>
  C8.  Take a resolver with at least one store (a resolver without stores returns before
  it reads or writes the cache, so nothing is ever recorded in its cache).  If its cache
  holds an entry for the conversation, \<^verbatim>\<open>LookupDMName\<close> returns the cached outcome (not
  found for the empty entry), opens no store and leaves the resolver as it is.  If the
  cache holds no entry and the lookup returns without an error, it has opened a store and
  has recorded the name it returns (the empty name when none was found) under the
  conversation; a later lookup of that conversation, with any store files and any account,
  returns the same outcome, opens no store and changes nothing.
\<close>

theorem LookupDMName_cache:
  assumes dbs: "platformDBs bl \<noteq> []"
  shows "(\<forall>cached. cache bl roomID = Some cached \<longrightarrow>
            LookupDMName files (Some bl) roomID accountID =
              (if cached = [] then Inr ([], False) else Inr (cached, True), Some bl, []))
       \<and> (\<forall>name ok b' opened.
            cache bl roomID = None \<and>
            LookupDMName files (Some bl) roomID accountID = (Inr (name, ok), b', opened) \<longrightarrow>
              b' = Some (bl\<lparr>cache := (cache bl)(roomID \<mapsto> name)\<rparr>) \<and> opened \<noteq> [] \<and>
              (\<forall>files' accountID'.
                 LookupDMName files' b' roomID accountID' = (Inr (name, ok), b', [])))"
proof (intro conjI allI impI)
  fix cached
  assume "cache bl roomID = Some cached"
  with dbs show "LookupDMName files (Some bl) roomID accountID =
      (if cached = [] then Inr ([], False) else Inr (cached, True), Some bl, [])"
    by (rule LookupDMName_cached)
next
  fix name ok b' opened
  assume a: "cache bl roomID = None \<and>
    LookupDMName files (Some bl) roomID accountID = (Inr (name, ok), b', opened)"
  then have f: "b' = Some (bl\<lparr>cache := (cache bl)(roomID \<mapsto> name)\<rparr>) \<and> opened \<noteq> [] \<and>
      ok = (name \<noteq> [])"
    using LookupDMName_fresh [OF dbs] by blast
  from f show "b' = Some (bl\<lparr>cache := (cache bl)(roomID \<mapsto> name)\<rparr>)"
    by simp
  from f show "opened \<noteq> []"
    by simp
  fix files' accountID'
  from f dbs show "LookupDMName files' b' roomID accountID' = (Inr (name, ok), b', [])"
    using LookupDMName_cached
            [of "bl\<lparr>cache := (cache bl)(roomID \<mapsto> name)\<rparr>" roomID name files' accountID']
    by auto
qed

text \<open>
  The resolver of the repository's test.  A first lookup of a room the store does not know
  opens the store and finds nothing; after it, and after a lookup that found a name, a
  second lookup opens no store, even when no store file can be opened any more.
\<close>

theorem LookupDMName_cache_witness:
  "LookupDMName exampleBridgeFiles (Some exampleBridge) ''!room1:beeper.local'' ''whatsapp'' =
     (Inr ([], False),
      Some (exampleBridge\<lparr>cache := [''!room1:beeper.local'' \<mapsto> []]\<rparr>),
      [''/b/local-whatsapp/megabridge.db''])
   \<and> LookupDMName (\<lambda>path. Inl ''unable to open database file'')
        (Some (exampleBridge\<lparr>cache := [''!room1:beeper.local'' \<mapsto> []]\<rparr>))
        ''!room1:beeper.local'' [] =
     (Inr ([], False), Some (exampleBridge\<lparr>cache := [''!room1:beeper.local'' \<mapsto> []]\<rparr>), [])
   \<and> LookupDMName (\<lambda>path. Inl ''unable to open database file'')
        (Some (exampleBridge\<lparr>cache := [''!room4:beeper.local'' \<mapsto> ''Bridge Name'']\<rparr>))
        ''!room4:beeper.local'' ''whatsapp'' =
     (Inr (''Bridge Name'', True),
      Some (exampleBridge\<lparr>cache := [''!room4:beeper.local'' \<mapsto> ''Bridge Name'']\<rparr>), [])"
proof -
  have dbs: "platformDBs exampleBridge \<noteq> []"
    by (simp add: exampleBridge_def)
  have c0: "cache exampleBridge = Map.empty"
    by (simp add: exampleBridge_def)
  have np: "normalizePlatform ''whatsapp'' = ''whatsapp''"
    by code_simp
  have q: "queryBridgeName exampleBridgeFiles ''/b/local-whatsapp/megabridge.db''
             ''!room1:beeper.local'' = Inr ([], False)"
    by (simp add: queryBridgeName_def exampleBridgeFiles_def exampleBridgeDB_def)
  have first: "LookupDMName exampleBridgeFiles (Some exampleBridge) ''!room1:beeper.local''
        ''whatsapp'' =
     (Inr ([], False),
      Some (exampleBridge\<lparr>cache := [''!room1:beeper.local'' \<mapsto> []]\<rparr>),
      [''/b/local-whatsapp/megabridge.db''])"
    by (simp add: LookupDMName_def Let_def np q exampleBridge_def)
  have dbs4: "platformDBs (exampleBridge\<lparr>cache := [''!room4:beeper.local'' \<mapsto> ''Bridge Name'']\<rparr>)
                \<noteq> []"
    by (simp add: exampleBridge_def)
  from first
       LookupDMName_cache [OF dbs, of "''!room1:beeper.local''" exampleBridgeFiles "''whatsapp''"]
       LookupDMName_cache [OF dbs4, of "''!room4:beeper.local''"
          "\<lambda>path. Inl ''unable to open database file''" "''whatsapp''"]
  show ?thesis
    by (auto simp add: c0)
qed

section \<open>Properties of the display name\<close>

text \<open>
  C5, as the code has it.  The display name of a thread is: the title if it is not empty;
  else the name if it is not empty; else, for a direct conversation (type \<^verbatim>\<open>single\<close> or
  \<^verbatim>\<open>dm\<close>) of a store with a name resolver, the resolver's name if it yields one.
  Otherwise it is made of the names of the participants that are not the user:
  \<^verbatim>\<open>(unknown)\<close> when there are none; for a direct conversation the first of them alone;
  for any other conversation all of them joined by a comma and a space when there are at
  most three, and the first three joined followed by \<^verbatim>\<open>+\<close> and the number of the
  remaining ones when there are more.
\<close>

theorem displayName_priority:
  "(Title thread \<noteq> [] \<longrightarrow>
      fst (displayName files bridge thread participants) = Title thread)
   \<and> (Title thread = [] \<and> Name thread \<noteq> [] \<longrightarrow>
      fst (displayName files bridge thread participants) = Name thread)
   \<and> (\<forall>name. Title thread = [] \<and> Name thread = [] \<and> bridge \<noteq> None \<and> isDirect thread \<and>
        fst (LookupDMName files bridge (ID thread) (AccountID thread)) = Inr (name, True) \<longrightarrow>
      fst (displayName files bridge thread participants) = name)
   \<and> (Title thread = [] \<and> Name thread = [] \<and>
       \<not> (bridge \<noteq> None \<and> isDirect thread \<and>
          (\<exists>name. fst (LookupDMName files bridge (ID thread) (AccountID thread))
                     = Inr (name, True))) \<longrightarrow>
      fst (displayName files bridge thread participants) =
        (let nonSelf = nonSelfNames participants in
         if nonSelf = [] then ''(unknown)''
         else if isDirect thread then hd nonSelf
         else if length nonSelf \<le> 3 then Join nonSelf '', ''
         else Join (take 3 nonSelf) '', '' @ '' +'' @ formatInt (int (length nonSelf) - 3)))"
proof -
  obtain looked b' opened where
    l: "LookupDMName files bridge (ID thread) (AccountID thread) = (looked, b', opened)"
    by (cases "LookupDMName files bridge (ID thread) (AccountID thread)")
  show ?thesis
  proof (cases looked)
    case (Inl err)
    with l show ?thesis
      by (simp add: displayName_def Let_def)
  next
    case (Inr r)
    obtain n ok where r: "r = (n, ok)"
      by (cases r)
    from l Inr r show ?thesis
      by (cases ok) (simp_all add: displayName_def Let_def)
  qed
qed

text \<open>
  A group of five other participants, a direct conversation the resolver of the
  repository's test knows, and a thread with a title.
\<close>

theorem displayName_priority_witness:
  "fst (displayName exampleBridgeFiles None (emptyThread\<lparr>Type := ''group''\<rparr>)
         [\<lparr>P_ID = ''@a'', P_Name = ''A'', IsSelf = False\<rparr>,
          \<lparr>P_ID = ''@me'', P_Name = ''Me'', IsSelf = True\<rparr>,
          \<lparr>P_ID = ''@b'', P_Name = ''B'', IsSelf = False\<rparr>,
          \<lparr>P_ID = ''@c'', P_Name = ''C'', IsSelf = False\<rparr>,
          \<lparr>P_ID = ''@d'', P_Name = ''D'', IsSelf = False\<rparr>,
          \<lparr>P_ID = ''@e'', P_Name = ''E'', IsSelf = False\<rparr>]) = ''A, B, C +2''
   \<and> fst (displayName exampleBridgeFiles (Some exampleBridge)
         (emptyThread\<lparr>ID := ''!room4:beeper.local'', AccountID := ''whatsapp'',
                        Type := ''single''\<rparr>) []) = ''Bridge Name''
   \<and> fst (displayName exampleBridgeFiles (Some exampleBridge)
         (emptyThread\<lparr>Title := ''Team Chat'', Type := ''group''\<rparr>) []) = ''Team Chat''"
proof -
  let ?five = "[\<lparr>P_ID = ''@a'', P_Name = ''A'', IsSelf = False\<rparr>,
          \<lparr>P_ID = ''@me'', P_Name = ''Me'', IsSelf = True\<rparr>,
          \<lparr>P_ID = ''@b'', P_Name = ''B'', IsSelf = False\<rparr>,
          \<lparr>P_ID = ''@c'', P_Name = ''C'', IsSelf = False\<rparr>,
          \<lparr>P_ID = ''@d'', P_Name = ''D'', IsSelf = False\<rparr>,
          \<lparr>P_ID = ''@e'', P_Name = ''E'', IsSelf = False\<rparr>]"
  have n: "nonSelfNames ?five = [''A'', ''B'', ''C'', ''D'', ''E'']"
    by (simp add: nonSelfNames_def)
  have f: "formatInt 2 = ''2''"
    by code_simp
  have g: "\<not> isDirect (emptyThread\<lparr>Type := ''group''\<rparr>)"
    by (simp add: isDirect_def)
  have d: "isDirect (emptyThread\<lparr>ID := ''!room4:beeper.local'', AccountID := ''whatsapp'',
                        Type := ''single''\<rparr>)"
    by (simp add: isDirect_def)
  have np: "normalizePlatform ''whatsapp'' = ''whatsapp''"
    by code_simp
  have t: "TrimSpace ''Bridge Name'' = ''Bridge Name''"
    by code_simp
  have q: "queryBridgeName exampleBridgeFiles ''/b/local-whatsapp/megabridge.db''
             ''!room4:beeper.local'' = Inr (''Bridge Name'', True)"
    by (simp add: queryBridgeName_def exampleBridgeFiles_def exampleBridgeDB_def t)
  have l: "fst (LookupDMName exampleBridgeFiles (Some exampleBridge) ''!room4:beeper.local''
             ''whatsapp'') = Inr (''Bridge Name'', True)"
    by (simp add: LookupDMName_def Let_def np q exampleBridge_def)
  have e: "Title emptyThread = []" "Name emptyThread = []" "ID emptyThread = []"
    "AccountID emptyThread = []"
    by (simp_all add: emptyThread_def)
  have a1: "fst (displayName exampleBridgeFiles None (emptyThread\<lparr>Type := ''group''\<rparr>) ?five)
              = ''A, B, C +2''"
    using displayName_priority
            [of "emptyThread\<lparr>Type := ''group''\<rparr>" exampleBridgeFiles None ?five] g
    by (simp add: e n f)
  have a2: "fst (displayName exampleBridgeFiles (Some exampleBridge)
         (emptyThread\<lparr>ID := ''!room4:beeper.local'', AccountID := ''whatsapp'',
                        Type := ''single''\<rparr>) []) = ''Bridge Name''"
    using displayName_priority
            [of "emptyThread\<lparr>ID := ''!room4:beeper.local'', AccountID := ''whatsapp'',
                              Type := ''single''\<rparr>" exampleBridgeFiles "Some exampleBridge" "[]"]
          d l
    by (simp add: e)
  have a3: "fst (displayName exampleBridgeFiles (Some exampleBridge)
         (emptyThread\<lparr>Title := ''Team Chat'', Type := ''group''\<rparr>) []) = ''Team Chat''"
    using displayName_priority
            [of "emptyThread\<lparr>Title := ''Team Chat'', Type := ''group''\<rparr>" exampleBridgeFiles
                "Some exampleBridge" "[]"]
    by simp
  from a1 a2 a3 show ?thesis
    by simp
qed

text \<open>
  The claim as stated joins the names of the other participants for every thread without
  a title, a name or a resolved name.  A direct conversation with two other participants,
  Alice and Bob, is shown as \<^verbatim>\<open>Alice\<close>, not as \<^verbatim>\<open>Alice, Bob\<close>.
\<close>

theorem displayName_priority_counterexample:
  "fst (displayName exampleBridgeFiles None (emptyThread\<lparr>Type := ''single''\<rparr>)
         [\<lparr>P_ID = ''@a'', P_Name = ''Alice'', IsSelf = False\<rparr>,
          \<lparr>P_ID = ''@b'', P_Name = ''Bob'', IsSelf = False\<rparr>])
     \<noteq> Join (nonSelfNames [\<lparr>P_ID = ''@a'', P_Name = ''Alice'', IsSelf = False\<rparr>,
                              \<lparr>P_ID = ''@b'', P_Name = ''Bob'', IsSelf = False\<rparr>]) '', ''"
proof -
  have r: "fst (displayName exampleBridgeFiles None (emptyThread\<lparr>Type := ''single''\<rparr>)
         [\<lparr>P_ID = ''@a'', P_Name = ''Alice'', IsSelf = False\<rparr>,
          \<lparr>P_ID = ''@b'', P_Name = ''Bob'', IsSelf = False\<rparr>]) = ''Alice''"
    by (simp add: displayName_def emptyThread_def isDirect_def nonSelfNames_def)
  have j: "Join (nonSelfNames [\<lparr>P_ID = ''@a'', P_Name = ''Alice'', IsSelf = False\<rparr>,
                              \<lparr>P_ID = ''@b'', P_Name = ''Bob'', IsSelf = False\<rparr>]) '', ''
             = ''Alice, Bob''"
    by (simp add: nonSelfNames_def)
  show ?thesis
    unfolding r j by simp
qed

section \<open>Properties of the thread functions\<close>

text \<open>The display name reads five fields of the thread only.\<close>

lemma displayName_fields:
  assumes "Title t = Title t'" "Name t = Name t'" "Type t = Type t'" "ID t = ID t'"
    "AccountID t = AccountID t'"
  shows "displayName files bridge t ps = displayName files bridge t' ps"
proof -
  have "isDirect t = isDirect t'"
    using assms by (simp add: isDirect_def)
  with assms show ?thesis
    by (simp add: displayName_def Let_def split: prod.splits sum.splits bool.splits)
qed

text \<open>
  C10.  For every thread ID, on the same database, store files and bridge,
  \<^verbatim>\<open>GetThread\<close> without statistics fails with the same error as \<^verbatim>\<open>GetThread\<close>
  with statistics, or returns the same thread with \<^verbatim>\<open>TotalMessages\<close>,
  \<^verbatim>\<open>LastMessage\<close> and \<^verbatim>\<open>LastOpen\<close> zeroed and every other field as it is: the
  archived state, the display name, the last activity, the tags, the participants and the
  flags.  The bridge after the call is the same too.
\<close>

theorem GetThread_withStats:
  "GetThread env files db bridge threadID False =
     (case GetThread env files db bridge threadID True of
        (Inl err, bridge') \<Rightarrow> (Inl err, bridge')
      | (Inr thread, bridge') \<Rightarrow>
          (Inr (thread\<lparr>LastMessage := zeroTime, LastOpen := zeroTime, TotalMessages := 0\<rparr>),
           bridge'))"
proof (cases "QueryContext db (StmtGetThread threadID) (getThreadRows db threadID)")
  case (Inl err)
  then show ?thesis
    by (simp add: GetThread_def)
next
  case (Inr rows)
  show ?thesis
  proof (cases rows)
    case Nil
    with Inr show ?thesis
      by (simp add: GetThread_def)
  next
    case (Cons r rest)
    show ?thesis
    proof (cases "participantsByRoom db [threadID]")
      case (Inl err)
      with Inr Cons show ?thesis
        by (simp add: GetThread_def Let_def)
    next
      case byRoom: (Inr byRoom)
      obtain name b' opened where d:
        "displayName files bridge (threadOfRow env r\<lparr>Participants := byRoom threadID\<rparr>)
           (byRoom threadID) = (name, b', opened)"
        by (cases "displayName files bridge (threadOfRow env r\<lparr>Participants := byRoom threadID\<rparr>)
                     (byRoom threadID)")
      have d': "displayName files bridge
                  (threadOfRow env r\<lparr>TotalMessages := n, Participants := byRoom threadID\<rparr>)
                  (byRoom threadID) = (name, b', opened)" for n
        using d displayName_fields
                [where t = "threadOfRow env r\<lparr>TotalMessages := n,
                                              Participants := byRoom threadID\<rparr>"
                   and t' = "threadOfRow env r\<lparr>Participants := byRoom threadID\<rparr>"
                   and files = files and bridge = bridge and ps = "byRoom threadID"]
        by simp
      have t0: "TotalMessages (threadOfRow env r) = 0"
        by (simp add: threadOfRow_def Let_def)
      from Inr Cons byRoom d d' t0 show ?thesis
        by (simp add: GetThread_def Let_def)
    qed
  qed
qed

text \<open>
  The first thread of the example database: with statistics it has three messages, the
  last at \<open>1700000000300\<close>, and was opened at \<open>1700000000900\<close>; without them these
  three fields are zero and the rest is the same.
\<close>

theorem GetThread_withStats_witness:
  "fst (GetThread exampleEnv exampleBridgeFiles exampleDB None ''!room1:beeper.local'' False) =
     Inr \<lparr>ID = ''!room1:beeper.local'', AccountID = ''whatsapp'', Title = ''Team Chat'',
           Name = [], Type = ''group'', DisplayName = ''Team Chat'',
           LastActivity = 1700000000900000000, LastMessage = zeroTime, LastOpen = zeroTime,
           IsUnread = False, IsMarkedUnread = False, IsLowPriority = False,
           IsArchived = False, UnreadCount = 0, UnreadMentions = 0, TotalMessages = 0,
           Tags = [],
           Participants = [\<lparr>P_ID = ''@alice:beeper.local'', P_Name = ''Alice'',
                             IsSelf = False\<rparr>]\<rparr>"
proof -
  have stats:
    "fst (GetThread exampleEnv exampleBridgeFiles exampleDB None ''!room1:beeper.local'' True) =
     Inr \<lparr>ID = ''!room1:beeper.local'', AccountID = ''whatsapp'', Title = ''Team Chat'',
           Name = [], Type = ''group'', DisplayName = ''Team Chat'',
           LastActivity = 1700000000900000000, LastMessage = 1700000000300000000,
           LastOpen = 1700000000900000000,
           IsUnread = False, IsMarkedUnread = False, IsLowPriority = False,
           IsArchived = False, UnreadCount = 0, UnreadMentions = 0, TotalMessages = 3,
           Tags = [],
           Participants = [\<lparr>P_ID = ''@alice:beeper.local'', P_Name = ''Alice'',
                             IsSelf = False\<rparr>]\<rparr>"
    by code_simp
  then obtain b where
    "GetThread exampleEnv exampleBridgeFiles exampleDB None ''!room1:beeper.local'' True =
     (Inr \<lparr>ID = ''!room1:beeper.local'', AccountID = ''whatsapp'', Title = ''Team Chat'',
           Name = [], Type = ''group'', DisplayName = ''Team Chat'',
           LastActivity = 1700000000900000000, LastMessage = 1700000000300000000,
           LastOpen = 1700000000900000000,
           IsUnread = False, IsMarkedUnread = False, IsLowPriority = False,
           IsArchived = False, UnreadCount = 0, UnreadMentions = 0, TotalMessages = 3,
           Tags = [],
           Participants = [\<lparr>P_ID = ''@alice:beeper.local'', P_Name = ''Alice'',
                             IsSelf = False\<rparr>]\<rparr>, b)"
    by (cases "GetThread exampleEnv exampleBridgeFiles exampleDB None ''!room1:beeper.local''
                 True") simp
  with GetThread_withStats
         [of exampleEnv exampleBridgeFiles exampleDB None "''!room1:beeper.local''"]
  show ?thesis
    by simp
qed



text \<open>
  A statement fails with one of its two errors, or gives the rows that the database has
  for it.
\<close>

lemma QueryContext_Inl:
  "QueryContext db s rows = Inl err \<Longrightarrow> db_failure db s = Some err"
  by (simp add: QueryContext_def split: option.splits)

lemma QueryContext_Inr:
  "QueryContext db s rows = Inr found \<Longrightarrow> found = rows"
  by (simp add: QueryContext_def split: option.splits)

lemma scanRows_Inl:
  "scanRows db s rows = Inl err \<Longrightarrow> db_rowsFailure db s = Some err"
  by (simp add: scanRows_def split: option.splits)

lemma scanRows_Inr:
  "scanRows db s rows = Inr found \<Longrightarrow> found = rows"
  by (simp add: scanRows_def split: option.splits)








section \<open>Properties of the search\<close>

lemma searchRows_LIKE:
  assumes "(m, rank) \<in> set (searchRows env db (StmtSearch False arg room account cutoff limit))"
  shows "rank = 0 \<and> m \<in> set (db_messages db)
       \<and> NS_Valid (m_message m)
       \<and> (\<exists>t. E_jsonText env (NS_String (m_message m)) = Some t \<and> E_like env arg t)
       \<and> m_isDeleted m = 0 \<and> notHiddenOrReaction m
       \<and> (\<forall>r. room = Some r \<longrightarrow> m_roomID m = r)
       \<and> (\<forall>a. account = Some a \<longrightarrow>
              (\<exists>t \<in> set (db_threads db). t_threadID t = m_roomID m \<and> NS_Valid (t_accountID t)
                                         \<and> NS_String (t_accountID t) = a))
       \<and> (\<forall>c. cutoff = Some c \<longrightarrow> c \<le> m_timestamp m)"
proof -
  from assms have "(m, rank) \<in> set (filter (\<lambda>(m, rank).
                      m_isDeleted m = 0 \<and> notHiddenOrReaction m
                      \<and> (case room of None \<Rightarrow> True | Some r \<Rightarrow> m_roomID m = r)
                      \<and> (case account of
                            None \<Rightarrow> True
                          | Some a \<Rightarrow>
                              m_roomID m \<in> set (map t_threadID
                                (filter (\<lambda>t. NS_Valid (t_accountID t) \<and> NS_String (t_accountID t) = a)
                                   (db_threads db))))
                      \<and> (case cutoff of None \<Rightarrow> True | Some c \<Rightarrow> c \<le> m_timestamp m))
              (map (\<lambda>m. (m, 0))
                 (filter (\<lambda>m. NS_Valid (m_message m) \<and>
                               (case E_jsonText env (NS_String (m_message m)) of
                                  Some t \<Rightarrow> E_like env arg t
                                | None \<Rightarrow> False))
                    (db_messages db))))"
    by (auto simp: Let_def dest: in_set_takeD)
  then show ?thesis
    by (auto split: option.splits)
qed

lemma searchRows_limit:
  "length (searchRows env db (StmtSearch useFTS arg room account cutoff limit)) \<le> nat limit"
  by (simp add: Let_def)

text \<open>The errors of the look-ups and of the context are errors of their own statements.\<close>

lemma threadInfoByID_Inl:
  "threadInfoByID db ids = Inl err \<Longrightarrow>
     db_failure db (StmtThreadInfo ids) = Some err
     \<or> db_rowsFailure db (StmtThreadInfo ids) = Some err"
  by (auto simp: threadInfoByID_def split: if_splits sum.splits
           dest: QueryContext_Inl scanRows_Inl)

lemma participantsByRoom_Inl:
  "participantsByRoom db ids = Inl err \<Longrightarrow>
     db_failure db (StmtParticipants (uniqueStrings ids)) = Some err
     \<or> db_rowsFailure db (StmtParticipants (uniqueStrings ids)) = Some err"
  by (auto simp: participantsByRoom_def Let_def split: if_splits sum.splits
           dest: QueryContext_Inl scanRows_Inl)

lemma trimContext_Inl:
  "trimContext msgs matchID context = Inl err \<Longrightarrow>
     err = ''panic: runtime error: makeslice: cap out of range''"
  by (auto simp: trimContext_def Let_def split: if_splits option.splits)

lemma fetchContextMessages_Inl:
  assumes "fetchContextMessages env files db bridge match opts byRoom infos = (Inl err, bridge')"
  shows "(\<exists>room start end'. db_failure db (StmtContext room start end') = Some err
                            \<or> db_rowsFailure db (StmtContext room start end') = Some err)
       \<or> err = ''panic: runtime error: makeslice: cap out of range''"
proof -
  define window where "window = (if Window opts = 0 then defaultContextWindow else Window opts)"
  define start where "start = UnixMilli (Add (Timestamp match) (wrap64 (- window)))"
  define end' where "end' = UnixMilli (Add (Timestamp match) window)"
  show ?thesis
  proof (cases "QueryContext db (StmtContext (ThreadID match) start end')
                  (contextRows db (ThreadID match) start end')")
    case (Inl e)
    with assms have "e = err"
      by (simp add: fetchContextMessages_def Let_def window_def start_def end'_def)
    with Inl show ?thesis
      by (auto dest: QueryContext_Inl)
  next
    case (Inr rows)
    show ?thesis
    proof (cases "scanRows db (StmtContext (ThreadID match) start end') rows")
      case (Inl e)
      with Inr assms have "e = err"
        by (simp add: fetchContextMessages_def Let_def window_def start_def end'_def)
      with Inl show ?thesis
        by (auto dest: scanRows_Inl)
    next
      case scanned: (Inr scanned)
      with Inr assms have "\<exists>msgs. trimContext msgs (M_ID match) (SO_Context opts) = Inl err"
        by (auto simp: fetchContextMessages_def Let_def window_def start_def end'_def
                 split: prod.splits if_splits)
      then show ?thesis
        by (auto dest: trimContext_Inl)
    qed
  qed
qed

lemma searchResults_Inl:
  "searchResults env files db bridge opts byRoom infos matches = (Inl err, bridge') \<Longrightarrow>
     (\<exists>room start end'. db_failure db (StmtContext room start end') = Some err
                          \<or> db_rowsFailure db (StmtContext room start end') = Some err)
     \<or> err = ''panic: runtime error: makeslice: cap out of range''"
proof (induction matches arbitrary: bridge bridge')
  case Nil
  then show ?case by simp
next
  case (Cons match rest)
  show ?case
  proof (cases "SO_Context opts > 0 \<or> Window opts > 0")
    case True
    obtain r b1 where f: "fetchContextMessages env files db bridge match opts byRoom infos = (r, b1)"
      by (cases "fetchContextMessages env files db bridge match opts byRoom infos")
    show ?thesis
    proof (cases r)
      case (Inl e)
      with Cons.prems True f have "e = err"
        by simp
      with f Inl fetchContextMessages_Inl show ?thesis
        by blast
    next
      case (Inr ctx)
      obtain r2 b2 where s: "searchResults env files db b1 opts byRoom infos rest = (r2, b2)"
        by (cases "searchResults env files db b1 opts byRoom infos rest")
      with Cons.prems True f Inr have "r2 = Inl err"
        by (cases r2) (simp_all split: if_splits)
      with s Cons.IH show ?thesis
        by blast
    qed
  next
    case False
    obtain r2 b2 where s: "searchResults env files db bridge opts byRoom infos rest = (r2, b2)"
      by (cases "searchResults env files db bridge opts byRoom infos rest")
    with Cons.prems False have "r2 = Inl err"
      by (cases r2) (simp_all split: if_splits)
    with s Cons.IH show ?thesis
      by blast
  qed
qed

lemma searchResults_Match:
  "searchResults env files db bridge opts byRoom infos matches = (Inr results, bridge') \<Longrightarrow>
     map Match results = matches"
proof (induction matches arbitrary: bridge bridge' results)
  case Nil
  then show ?case by simp
next
  case (Cons match rest)
  show ?case
  proof (cases "SO_Context opts > 0 \<or> Window opts > 0")
    case True
    obtain r b1 where f: "fetchContextMessages env files db bridge match opts byRoom infos = (r, b1)"
      by (cases "fetchContextMessages env files db bridge match opts byRoom infos")
    obtain r2 b2 where s: "searchResults env files db b1 opts byRoom infos rest = (r2, b2)"
      by (cases "searchResults env files db b1 opts byRoom infos rest")
    from Cons.prems True f s obtain ctx rs where
      "r = Inr ctx" "r2 = Inr rs" "results = \<lparr>Match = match, Context = ctx\<rparr> # rs"
      by (cases r; cases r2) (auto split: if_splits)
    with s Cons.IH show ?thesis
      by auto
  next
    case False
    obtain r2 b2 where s: "searchResults env files db bridge opts byRoom infos rest = (r2, b2)"
      by (cases "searchResults env files db bridge opts byRoom infos rest")
    from Cons.prems False s obtain rs where
      "r2 = Inr rs" "results = \<lparr>Match = match, Context = []\<rparr> # rs"
      by (cases r2) (auto split: if_splits)
    with s Cons.IH show ?thesis
      by auto
  qed
qed

lemma nameSender_Score: "Score (nameSender idx msg) = Score msg"
  by (simp add: nameSender_def split: option.splits)

lemma nameMatches_Score:
  "map Score (fst (nameMatches files bridge infos byRoom matches)) = map Score matches"
proof (induction matches arbitrary: bridge)
  case Nil
  then show ?case by simp
next
  case (Cons match rest)
  obtain name b1 opened where d:
    "displayName files bridge (threadOfInfo (ThreadID match) (infos (ThreadID match)))
       (byRoom (ThreadID match)) = (name, b1, opened)"
    by (cases "displayName files bridge (threadOfInfo (ThreadID match) (infos (ThreadID match)))
                 (byRoom (ThreadID match))")
  obtain named b2 where n: "nameMatches files b1 infos byRoom rest = (named, b2)"
    by (cases "nameMatches files b1 infos byRoom rest")
  from Cons.IH [of b1] n have "map Score named = map Score rest"
    by simp
  with d n show ?case
    by (simp add: Let_def nameSender_Score)
qed

lemma assembleResults_Inl:
  assumes "fst (assembleResults env files db bridge opts rows) = Inl err"
  shows "(\<exists>s. (db_failure db s = Some err \<or> db_rowsFailure db s = Some err)
            \<and> (\<forall>f a r c t l. s \<noteq> StmtSearch f a r c t l))
       \<or> err = ''panic: runtime error: makeslice: cap out of range''"
proof -
  define roomIDs where
    "roomIDs = map ThreadID (map (\<lambda>(m, rank). messageOfRow env (Format opts) m rank) rows)"
  show ?thesis
  proof (cases "threadInfoByID db (uniqueStrings roomIDs)")
    case (Inl e)
    with assms have "e = err"
      by (simp add: assembleResults_def Let_def roomIDs_def)
    with threadInfoByID_Inl [of db "uniqueStrings roomIDs" e] Inl
    have "db_failure db (StmtThreadInfo (uniqueStrings roomIDs)) = Some err
          \<or> db_rowsFailure db (StmtThreadInfo (uniqueStrings roomIDs)) = Some err"
      by simp
    then have "\<exists>s. (db_failure db s = Some err \<or> db_rowsFailure db s = Some err)
                 \<and> (\<forall>f a r c t l. s \<noteq> StmtSearch f a r c t l)"
      by (intro exI [of _ "StmtThreadInfo (uniqueStrings roomIDs)"]) simp
    then show ?thesis
      by (rule disjI1)
  next
    case infos: (Inr infos)
    show ?thesis
    proof (cases "participantsByRoom db (uniqueStrings roomIDs)")
      case (Inl e)
      with assms infos have "e = err"
        by (simp add: assembleResults_def Let_def roomIDs_def)
      with participantsByRoom_Inl [of db "uniqueStrings roomIDs" e] Inl
      have "db_failure db (StmtParticipants (uniqueStrings (uniqueStrings roomIDs))) = Some err
            \<or> db_rowsFailure db (StmtParticipants (uniqueStrings (uniqueStrings roomIDs)))
                = Some err"
        by simp
      then have "\<exists>s. (db_failure db s = Some err \<or> db_rowsFailure db s = Some err)
                   \<and> (\<forall>f a r c t l. s \<noteq> StmtSearch f a r c t l)"
        by (intro exI [of _ "StmtParticipants (uniqueStrings (uniqueStrings roomIDs))"]) simp
      then show ?thesis
        by (rule disjI1)
    next
      case (Inr byRoom)
      with assms infos have "\<exists>b named b'.
          searchResults env files db b opts byRoom infos named = (Inl err, b')"
        by (simp add: assembleResults_def Let_def roomIDs_def split: prod.splits)
           (metis prod.collapse)
      then obtain b named b' where
        "searchResults env files db b opts byRoom infos named = (Inl err, b')"
        by blast
      then have "(\<exists>room start end'. db_failure db (StmtContext room start end') = Some err
                          \<or> db_rowsFailure db (StmtContext room start end') = Some err)
           \<or> err = ''panic: runtime error: makeslice: cap out of range''"
        by (rule searchResults_Inl)
      then show ?thesis
      proof
        assume "\<exists>room start end'. db_failure db (StmtContext room start end') = Some err
                          \<or> db_rowsFailure db (StmtContext room start end') = Some err"
        then obtain room start end' where
          "db_failure db (StmtContext room start end') = Some err
           \<or> db_rowsFailure db (StmtContext room start end') = Some err"
          by blast
        then have "\<exists>s. (db_failure db s = Some err \<or> db_rowsFailure db s = Some err)
                     \<and> (\<forall>f a r c t l. s \<noteq> StmtSearch f a r c t l)"
          by (intro exI [of _ "StmtContext room start end'"]) simp
        then show ?thesis
          by (rule disjI1)
      next
        assume "err = ''panic: runtime error: makeslice: cap out of range''"
        then show ?thesis
          by (rule disjI2)
      qed
    qed
  qed
qed

lemma assembleResults_Score:
  assumes "fst (assembleResults env files db bridge opts rows) = Inr results"
  shows "map (\<lambda>r. Score (Match r)) results = map snd rows"
proof -
  define matches where "matches = map (\<lambda>(m, rank). messageOfRow env (Format opts) m rank) rows"
  have sc: "map Score matches = map snd rows"
    by (simp add: matches_def messageOfRow_def Let_def split_def)
  from assms obtain infos byRoom b b' where
    "searchResults env files db b opts byRoom infos
       (fst (nameMatches files bridge infos byRoom matches)) = (Inr results, b')"
    by (auto simp: assembleResults_def Let_def matches_def
             split: sum.splits prod.splits)
       (metis fst_conv prod.collapse)
  then have "map Match results = fst (nameMatches files bridge infos byRoom matches)"
    by (rule searchResults_Match)
  then have "map Score (map Match results) = map Score matches"
    by (simp add: nameMatches_Score)
  with sc show ?thesis
    by (simp add: comp_def)
qed

text \<open>
  C3.  Take a search with a non-blank query, on a database whose \<^verbatim>\<open>sqlite_master\<close>
  lists the full-text table and on which \<^verbatim>\<open>QueryContext\<close> fails for the
  \<^verbatim>\<open>MATCH\<close> statement with an error that \<^verbatim>\<open>isFTSError\<close> recognises.  Then
  \<^verbatim>\<open>SearchMessages\<close> does what the \<^verbatim>\<open>LIKE\<close> statement alone gives: it fails
  with the error of that statement, or assembles the results from its rows.  Each of these
  rows has rank 0, has a message text \<^verbatim>\<open>LIKE\<close> the query between two \<^verbatim>\<open>%\<close>, is
  neither deleted nor hidden nor a reaction, and passes the conversation, account and
  day-range filters of the request; there are at most \<open>limit\<close> rows; and every match
  returned has score 0.  Where the statements that fail with an error of that kind, be it
  in \<^verbatim>\<open>QueryContext\<close> or while their rows are read, are all \<^verbatim>\<open>MATCH\<close> statements
  (as on a database without the module or the table), no error that
  \<^verbatim>\<open>SearchMessages\<close> returns is of that kind.
\<close>

theorem SearchMessages_fallback:
  assumes query: "TrimSpace (Query opts) \<noteq> []"
    and limit: "limit = (if SO_Limit opts \<le> 0 then defaultLimit else SO_Limit opts)"
    and table: "HasFTS db = Inr True"
    and failed: "db_failure db (buildQuery opts limit (clock 0) True) = Some err"
    and fts: "isFTSError err"
  shows "SearchMessages env files db bridge clock opts =
           (case QueryContext db (buildQuery opts limit (clock 1) False)
                   (searchRows env db (buildQuery opts limit (clock 1) False)) of
              Inl err' \<Rightarrow> (Inl err', bridge)
            | Inr rows \<Rightarrow>
                (case scanRows db (buildQuery opts limit (clock 1) False) rows of
                   Inl err' \<Rightarrow> (Inl err', bridge)
                 | Inr rows \<Rightarrow> assembleResults env files db bridge opts rows))
       \<and> (\<forall>(m, rank) \<in> set (searchRows env db (buildQuery opts limit (clock 1) False)).
             rank = 0
             \<and> (\<exists>t. E_jsonText env (NS_String (m_message m)) = Some t
                     \<and> E_like env (''%'' @ Query opts @ ''%'') t)
             \<and> m_isDeleted m = 0 \<and> notHiddenOrReaction m
             \<and> (SO_ThreadID opts \<noteq> [] \<longrightarrow> m_roomID m = SO_ThreadID opts)
             \<and> (SO_AccountID opts \<noteq> [] \<longrightarrow>
                   (\<exists>t \<in> set (db_threads db). t_threadID t = m_roomID m
                       \<and> NS_Valid (t_accountID t) \<and> NS_String (t_accountID t) = SO_AccountID opts))
             \<and> (SO_Days opts > 0 \<longrightarrow> clock 1 \<le> m_timestamp m))
       \<and> length (searchRows env db (buildQuery opts limit (clock 1) False)) \<le> nat limit
       \<and> (\<forall>results. fst (SearchMessages env files db bridge clock opts) = Inr results \<longrightarrow>
             (\<forall>r \<in> set results. Score (Match r) = 0))
       \<and> ((\<forall>s e. (db_failure db s = Some e \<or> db_rowsFailure db s = Some e) \<and> isFTSError e \<longrightarrow>
               (\<exists>arg room account cutoff n. s = StmtSearch True arg room account cutoff n)) \<longrightarrow>
           (\<forall>e. fst (SearchMessages env files db bridge clock opts) = Inl e \<longrightarrow> \<not> isFTSError e))"
proof -
  let ?like = "buildQuery opts limit (clock 1) False"
  let ?rows = "searchRows env db ?like"
  have first: "QueryContext db (buildQuery opts limit (clock 0) True)
                 (searchRows env db (buildQuery opts limit (clock 0) True)) = Inl err"
    using failed by (simp add: QueryContext_def)
  have run: "SearchMessages env files db bridge clock opts =
           (case QueryContext db ?like ?rows of
              Inl err' \<Rightarrow> (Inl err', bridge)
            | Inr rows \<Rightarrow>
                (case scanRows db ?like rows of
                   Inl err' \<Rightarrow> (Inl err', bridge)
                 | Inr rows \<Rightarrow> assembleResults env files db bridge opts rows))"
    using query table fts first
    by (simp add: SearchMessages_def Let_def limit [symmetric] split: sum.splits)
  have rows: "rank = 0
             \<and> (\<exists>t. E_jsonText env (NS_String (m_message m)) = Some t
                     \<and> E_like env (''%'' @ Query opts @ ''%'') t)
             \<and> m_isDeleted m = 0 \<and> notHiddenOrReaction m
             \<and> (SO_ThreadID opts \<noteq> [] \<longrightarrow> m_roomID m = SO_ThreadID opts)
             \<and> (SO_AccountID opts \<noteq> [] \<longrightarrow>
                   (\<exists>t \<in> set (db_threads db). t_threadID t = m_roomID m
                       \<and> NS_Valid (t_accountID t) \<and> NS_String (t_accountID t) = SO_AccountID opts))
             \<and> (SO_Days opts > 0 \<longrightarrow> clock 1 \<le> m_timestamp m)"
    if "(m, rank) \<in> set ?rows" for m rank
    using searchRows_LIKE [of m rank env db "''%'' @ Query opts @ ''%''"
            "if SO_ThreadID opts \<noteq> [] then Some (SO_ThreadID opts) else None"
            "if SO_AccountID opts \<noteq> [] then Some (SO_AccountID opts) else None"
            "if SO_Days opts > 0 then Some (clock 1) else None" limit] that
    unfolding buildQuery_def by simp
  have len: "length ?rows \<le> nat limit"
    unfolding buildQuery_def by (rule searchRows_limit)
  have score: "Score (Match r) = 0"
    if res: "fst (SearchMessages env files db bridge clock opts) = Inr results"
      and r: "r \<in> set results" for results r
  proof -
    from res run have a: "fst (assembleResults env files db bridge opts ?rows) = Inr results"
      by (auto split: sum.splits dest: QueryContext_Inr scanRows_Inr)
    then have "map (\<lambda>r. Score (Match r)) results = map snd ?rows"
      by (rule assembleResults_Score)
    moreover have "x = 0" if "x \<in> set (map snd ?rows)" for x
      using that rows by auto
    ultimately have "\<forall>x \<in> set (map (\<lambda>r. Score (Match r)) results). x = 0"
      by metis
    with r show ?thesis
      by simp
  qed
  have panic: "\<not> isFTSError ''panic: runtime error: makeslice: cap out of range''"
    by code_simp
  have never: "\<not> isFTSError e"
    if only: "\<forall>s e. (db_failure db s = Some e \<or> db_rowsFailure db s = Some e) \<and> isFTSError e \<longrightarrow>
               (\<exists>arg room account cutoff n. s = StmtSearch True arg room account cutoff n)"
      and res: "fst (SearchMessages env files db bridge clock opts) = Inl e" for e
  proof -
    have like: "\<not> (\<exists>arg room account cutoff n. ?like = StmtSearch True arg room account cutoff n)"
      by (simp add: buildQuery_def)
    show ?thesis
    proof (cases "QueryContext db ?like ?rows")
      case (Inl e')
      with res run have "e' = e"
        by simp
      with Inl have "db_failure db ?like = Some e"
        by (auto dest: QueryContext_Inl)
      with only like show ?thesis
        by blast
    next
      case (Inr found)
      show ?thesis
      proof (cases "scanRows db ?like found")
        case (Inl e')
        with Inr res run have "e' = e"
          by simp
        with Inl have "db_rowsFailure db ?like = Some e"
          by (auto dest: scanRows_Inl)
        with only like show ?thesis
          by blast
      next
        case scanned: (Inr scanned)
        with Inr res run have "fst (assembleResults env files db bridge opts scanned) = Inl e"
          by simp
        then have "(\<exists>s. (db_failure db s = Some e \<or> db_rowsFailure db s = Some e)
                      \<and> (\<forall>f a r c t l. s \<noteq> StmtSearch f a r c t l))
           \<or> e = ''panic: runtime error: makeslice: cap out of range''"
          by (rule assembleResults_Inl)
        then show ?thesis
        proof
          assume "\<exists>s. (db_failure db s = Some e \<or> db_rowsFailure db s = Some e)
                      \<and> (\<forall>f a r c t l. s \<noteq> StmtSearch f a r c t l)"
          then obtain s where
            s: "db_failure db s = Some e \<or> db_rowsFailure db s = Some e"
               "\<forall>f a r c t l. s \<noteq> StmtSearch f a r c t l"
            by blast
          with only show ?thesis
            by blast
        next
          assume "e = ''panic: runtime error: makeslice: cap out of range''"
          with panic show ?thesis
            by simp
        qed
      qed
    qed
  qed
  from run rows len score never show ?thesis
    by (intro conjI) (blast+)
qed

text \<open>
  The search for \<^verbatim>\<open>christmas\<close> where the module is missing: every \<^verbatim>\<open>MATCH\<close>
  statement fails and no other statement does, the one message with the word is found by
  the \<^verbatim>\<open>LIKE\<close> statement, with score 0, and no error of the full-text index is
  returned.
\<close>

theorem SearchMessages_fallback_witness:
  "map_sum id (map (\<lambda>r. (M_ID (Match r), Text (Match r), Score (Match r))))
     (fst (SearchMessages exampleEnv exampleBridgeFiles exampleNoModule None (\<lambda>k. 0)
             exampleSearchOptions)) =
   Inr [(2, ''christmas party'', 0)]
   \<and> \<not> (\<exists>e. fst (SearchMessages exampleEnv exampleBridgeFiles exampleNoModule None (\<lambda>k. 0)
                   exampleSearchOptions) = Inl e \<and> isFTSError e)"
proof -
  have query: "TrimSpace (Query exampleSearchOptions) \<noteq> []"
    by code_simp
  have limit: "50 = (if SO_Limit exampleSearchOptions \<le> 0 then defaultLimit
                     else SO_Limit exampleSearchOptions)"
    by (simp add: exampleSearchOptions_def defaultLimit_def)
  have table: "HasFTS exampleNoModule = Inr True"
    by (simp add: HasFTS_def QueryContext_def exampleNoModule_def exampleDB_def)
  have failed: "db_failure exampleNoModule (buildQuery exampleSearchOptions 50 0 True)
                  = Some ''no such module: fts5''"
    by (simp add: exampleNoModule_def buildQuery_def)
  have fts: "isFTSError ''no such module: fts5''"
    by code_simp
  have only: "\<forall>s e. (db_failure exampleNoModule s = Some e
                      \<or> db_rowsFailure exampleNoModule s = Some e) \<and> isFTSError e \<longrightarrow>
               (\<exists>arg room account cutoff n. s = StmtSearch True arg room account cutoff n)"
    by (auto simp: exampleNoModule_def exampleDB_def split: stmt.splits if_splits)
  have like: "map_sum id (map (\<lambda>r. (M_ID (Match r), Text (Match r), Score (Match r))))
     (fst (case QueryContext exampleNoModule (buildQuery exampleSearchOptions 50 0 False)
                  (searchRows exampleEnv exampleNoModule
                     (buildQuery exampleSearchOptions 50 0 False)) of
             Inl err' \<Rightarrow> (Inl err', None)
           | Inr rows \<Rightarrow>
               (case scanRows exampleNoModule (buildQuery exampleSearchOptions 50 0 False) rows of
                  Inl err' \<Rightarrow> (Inl err', None)
                | Inr rows \<Rightarrow>
                    assembleResults exampleEnv exampleBridgeFiles exampleNoModule None
                      exampleSearchOptions rows))) =
     Inr [(2, ''christmas party'', 0)]"
    by code_simp
  note fallback =
    SearchMessages_fallback
         [where opts = exampleSearchOptions and limit = 50 and db = exampleNoModule
            and clock = "\<lambda>k. 0" and err = "''no such module: fts5''" and env = exampleEnv
            and files = exampleBridgeFiles and bridge = None,
          OF query limit table failed fts]
  from fallback
  have "SearchMessages exampleEnv exampleBridgeFiles exampleNoModule None (\<lambda>k. 0)
          exampleSearchOptions =
        (case QueryContext exampleNoModule (buildQuery exampleSearchOptions 50 0 False)
                  (searchRows exampleEnv exampleNoModule
                     (buildQuery exampleSearchOptions 50 0 False)) of
             Inl err' \<Rightarrow> (Inl err', None)
           | Inr rows \<Rightarrow>
               (case scanRows exampleNoModule (buildQuery exampleSearchOptions 50 0 False) rows of
                  Inl err' \<Rightarrow> (Inl err', None)
                | Inr rows \<Rightarrow>
                    assembleResults exampleEnv exampleBridgeFiles exampleNoModule None
                      exampleSearchOptions rows))"
    by blast
  with like have found: "map_sum id (map (\<lambda>r. (M_ID (Match r), Text (Match r), Score (Match r))))
     (fst (SearchMessages exampleEnv exampleBridgeFiles exampleNoModule None (\<lambda>k. 0)
             exampleSearchOptions)) =
   Inr [(2, ''christmas party'', 0)]"
    by simp
  from fallback only
  have "\<forall>e. fst (SearchMessages exampleEnv exampleBridgeFiles exampleNoModule None (\<lambda>k. 0)
                   exampleSearchOptions) = Inl e \<longrightarrow> \<not> isFTSError e"
    by blast
  with found show ?thesis
    by blast
qed

section \<open>Properties of the context\<close>

lemma wrap64_id: "minInt64 \<le> x \<Longrightarrow> x \<le> maxInt64 \<Longrightarrow> wrap64 x = x"
  by (simp add: wrap64_def minInt64_def maxInt64_def)

lemma indexOfID_Some:
  "indexOfID msgs matchID = Some idx \<Longrightarrow>
     idx < length msgs \<and> M_ID (msgs ! idx) = matchID \<and> (\<forall>j < idx. M_ID (msgs ! j) \<noteq> matchID)"
proof (induction msgs arbitrary: idx)
  case Nil
  then show ?case by simp
next
  case (Cons msg rest)
  show ?case
  proof (cases "M_ID msg = matchID")
    case True
    with Cons.prems show ?thesis by simp
  next
    case False
    with Cons.prems obtain i where i: "indexOfID rest matchID = Some i" "idx = Suc i"
      by (auto split: option.splits)
    from Cons.IH [OF i(1)] i(2) False show ?thesis
      by (auto simp: less_Suc_eq_0_disj)
  qed
qed

lemma indexOfID_None:
  "indexOfID msgs matchID = None \<Longrightarrow> \<forall>msg \<in> set msgs. M_ID msg \<noteq> matchID"
  by (induction msgs) (auto split: if_splits option.splits)

text \<open>The elements at the indices from \<open>a\<close> up to \<open>b\<close> are a slice.\<close>

lemma nth_slice:
  assumes "0 \<le> a" "a \<le> b" "b \<le> int (length xs)"
  shows "map (\<lambda>i. xs ! nat i) [a .. b - 1] = take (nat (b - a)) (drop (nat a) xs)"
proof (rule nth_equalityI)
  from assms show "length (map (\<lambda>i. xs ! nat i) [a .. b - 1]) =
      length (take (nat (b - a)) (drop (nat a) xs))"
    by simp
next
  fix k
  assume "k < length (map (\<lambda>i. xs ! nat i) [a .. b - 1])"
  with assms have k: "int k < b - a"
    by simp
  with assms have "[a .. b - 1] ! k = a + int k"
    by simp
  moreover from assms have "nat (a + int k) = nat a + k"
    by simp
  ultimately show "map (\<lambda>i. xs ! nat i) [a .. b - 1] ! k =
      take (nat (b - a)) (drop (nat a) xs) ! k"
    using assms k by simp
qed

text \<open>
  Where the sums do not wrap around, \<^verbatim>\<open>trimContext\<close> returns the up to \<open>context\<close>
  messages before the match and the up to \<open>context\<close> messages after it, without the
  match.  (The hypothesis on the length says that the slice is one the runtime can hold.)
\<close>

lemma trimContext_in_range:
  assumes pos: "0 < context"
    and idx: "indexOfID msgs matchID = Some idx"
    and range: "int idx + context + 1 \<le> maxInt64"
    and mem: "int (length msgs) * 176 \<le> 2 ^ 48"
  shows "trimContext msgs matchID context =
           Inr (drop (idx - nat context) (take idx msgs) @ take (nat context) (drop (Suc idx) msgs))"
proof -
  from idx have lt: "idx < length msgs"
    by (simp add: indexOfID_Some)
  then have ne: "msgs \<noteq> []"
    by auto
  define start where "start = (if int idx - context < 0 then 0 else int idx - context)"
  define end' where "end' = (if int idx + context + 1 > int (length msgs) then int (length msgs)
                             else int idx + context + 1)"
  have w1: "wrap64 (int idx - context) = int idx - context"
    using pos range by (intro wrap64_id) (simp_all add: minInt64_def maxInt64_def)
  have w2: "wrap64 (wrap64 (int idx + context) + 1) = int idx + context + 1"
    using pos range by (simp add: wrap64_id minInt64_def maxInt64_def)
  have se: "0 \<le> start" "start \<le> int idx" "int idx < end'" "end' \<le> int (length msgs)"
    using pos lt by (auto simp: start_def end'_def)
  have w3: "wrap64 (wrap64 (end' - start) - 1) = end' - start - 1"
    using se mem by (simp add: wrap64_id minInt64_def maxInt64_def)
  have np: "\<not> makePanics (end' - start - 1)"
    using se mem by (auto simp: makePanics_def)
  have run: "trimContext msgs matchID context =
      Inr (map (\<lambda>i. msgs ! nat i) (filter (\<lambda>i. i \<noteq> int idx) [start .. end' - 1]))"
  proof -
    have "trimContext msgs matchID context =
        (let start = int idx - context;
             start = (if start < 0 then 0 else start);
             end' = int idx + context + 1;
             end' = (if end' > int (length msgs) then int (length msgs) else end')
         in if makePanics (wrap64 (wrap64 (end' - start) - 1))
            then Inl ''panic: runtime error: makeslice: cap out of range''
            else Inr (map (\<lambda>i. msgs ! nat i)
                        (filter (\<lambda>i. i \<noteq> int idx) [start .. end' - 1])))"
      using pos ne idx by (simp add: trimContext_def w1 w2)
    also have "\<dots> =
        (if makePanics (wrap64 (wrap64 (end' - start) - 1))
         then Inl ''panic: runtime error: makeslice: cap out of range''
         else Inr (map (\<lambda>i. msgs ! nat i)
                     (filter (\<lambda>i. i \<noteq> int idx) [start .. end' - 1])))"
      unfolding Let_def start_def end'_def ..
    finally show ?thesis
      using np by (simp add: w3)
  qed
  have split: "[start .. end' - 1] = [start .. int idx - 1] @ int idx # [int idx + 1 .. end' - 1]"
    using se by (intro upto_split3) simp_all
  have f1: "filter (\<lambda>i. i \<noteq> int idx) [start .. int idx - 1] = [start .. int idx - 1]"
    by (rule filter_True) simp
  have f2: "filter (\<lambda>i. i \<noteq> int idx) [int idx + 1 .. end' - 1] = [int idx + 1 .. end' - 1]"
    by (rule filter_True) simp
  have before: "map (\<lambda>i. msgs ! nat i) [start .. int idx - 1] =
      drop (idx - nat context) (take idx msgs)"
  proof -
    have "map (\<lambda>i. msgs ! nat i) [start .. int idx - 1] =
        take (nat (int idx - start)) (drop (nat start) msgs)"
      using se lt by (intro nth_slice) simp_all
    moreover have "nat start = idx - nat context"
      using pos by (auto simp: start_def)
    moreover have "nat (int idx - start) = idx - (idx - nat context)"
      using pos by (auto simp: start_def)
    ultimately show ?thesis
      by (simp add: drop_take)
  qed
  have after: "map (\<lambda>i. msgs ! nat i) [int idx + 1 .. end' - 1] =
      take (nat context) (drop (Suc idx) msgs)"
  proof -
    have "map (\<lambda>i. msgs ! nat i) [int idx + 1 .. end' - 1] =
        take (nat (end' - (int idx + 1))) (drop (nat (int idx + 1)) msgs)"
      using se lt by (intro nth_slice) simp_all
    moreover have "nat (int idx + 1) = Suc idx"
      by simp
    moreover have "take (nat (end' - (int idx + 1))) (drop (Suc idx) msgs) =
        take (nat context) (drop (Suc idx) msgs)"
      using pos lt by (auto simp: end'_def)
    ultimately show ?thesis
      by simp
  qed
  show ?thesis
    unfolding run split by (simp add: f1 f2 before after)
qed

text \<open>Without a context count, or without the match in the window, nothing is trimmed.\<close>

lemma trimContext_unmodified:
  "context \<le> 0 \<or> indexOfID msgs matchID = None \<Longrightarrow> trimContext msgs matchID context = Inr msgs"
  by (auto simp: trimContext_def)

text \<open>
  The rows that \<^verbatim>\<open>fetchContextMessages\<close> reads are the messages of the conversation that
  are neither deleted nor hidden nor reactions and whose timestamp lies between the two
  bounds, in the order of their timestamps.
\<close>

lemma contextRows_window:
  "set (contextRows db room start end') =
     {m \<in> set (db_messages db). m_roomID m = room \<and> start \<le> m_timestamp m
        \<and> m_timestamp m \<le> end' \<and> m_isDeleted m = 0 \<and> notHiddenOrReaction m}
   \<and> sorted (map m_timestamp (contextRows db room start end'))"
  by (auto simp: contextRows_def)

text \<open>
  For a match that carries a millisecond timestamp other than 0 and a window of whole
  milliseconds that is not the least 64-bit number, the bounds are the timestamp minus and
  plus the window.
\<close>

lemma context_bounds:
  assumes "ts \<noteq> 0" and "minInt64 < w * 1000000" and "w * 1000000 \<le> maxInt64"
  shows "UnixMilli (Add (unixMillis ts) (wrap64 (- (w * 1000000)))) = ts - w
       \<and> UnixMilli (Add (unixMillis ts) (w * 1000000)) = ts + w"
proof -
  have "wrap64 (- (w * 1000000)) = - (w * 1000000)"
    using assms by (intro wrap64_id) (simp_all add: minInt64_def maxInt64_def)
  moreover have "(ts * 1000000 - w * 1000000) div 1000000 = ts - w"
  proof -
    have "ts * 1000000 - w * 1000000 = (ts - w) * 1000000"
      by (simp only: left_diff_distrib)
    then show ?thesis
      by (simp only: nonzero_mult_div_cancel_right)
  qed
  moreover have "(ts * 1000000 + w * 1000000) div 1000000 = ts + w"
  proof -
    have "ts * 1000000 + w * 1000000 = (ts + w) * 1000000"
      by (simp only: distrib_right)
    then show ?thesis
      by (simp only: nonzero_mult_div_cancel_right)
  qed
  ultimately show ?thesis
    using assms by (simp add: UnixMilli_def Add_def unixMillis_def UnixMilliTime_def)
qed

text \<open>
  C4 at the example database, without the full-text table: the search for
  \<^verbatim>\<open>christmas\<close> with the context count \<open>9223372036854775807\<close>.  The match is the
  second of three messages in the window; \<^verbatim>\<open>idx + context + 1\<close> wraps around to a
  negative \<^verbatim>\<open>end\<close>, and \<^verbatim>\<open>make\<close> panics on the negative capacity.
\<close>

theorem SearchMessages_context_overflow:
  "fst (SearchMessages exampleEnv exampleBridgeFiles (exampleDB\<lparr>db_ftsTable := False\<rparr>) None
          (\<lambda>k. 0) (exampleSearchOptions\<lparr>SO_Context := 9223372036854775807\<rparr>)) =
   Inl ''panic: runtime error: makeslice: cap out of range''"
  by code_simp

end
